theory Spec2Isabelle
  imports Main "HOL-Library.AList"
begin

section \<open>Python values used by \<open>app.py\<close>\<close>

text \<open>
  A Python \<open>str\<close> is a sequence of Unicode code points, so it is modelled as a list of
  natural numbers (one per code point). String literals of the program are written with
  \<open>ascii\<close>. Labels that are only passed to the widget toolkit are kept as HOL strings,
  without their icons.
\<close>

type_synonym pystr = "nat list"

definition ascii :: "string \<Rightarrow> pystr" where
  "ascii cs = map of_char cs"

text \<open>A value that may be Python's \<open>None\<close>.\<close>

datatype 'a nullable = PyNone | Val 'a

text \<open>Truth value of a value that is \<open>None\<close> or a list: \<open>None\<close> and \<open>[]\<close> are false.\<close>

fun truthy_list :: "'a list nullable \<Rightarrow> bool" where
  "truthy_list PyNone = False"
| "truthy_list (Val xs) = (xs \<noteq> [])"

text \<open>
  The exceptions of a run: the two that the statements of \<open>app.py\<close> raise themselves,
  and one for an exception of the collaborator (which may raise any of the three).
\<close>

datatype exn = AttributeError | KeyError pystr | CollaboratorError pystr

subsection \<open>\<open>str.strip()\<close>, \<open>str.split(",")\<close> and \<open>", ".join(...)\<close>\<close>

text \<open>
  The code points for which CPython's \<open>str.isspace\<close> holds; \<open>str.strip()\<close> without an
  argument removes exactly these from both ends.
\<close>

definition isspace :: "nat \<Rightarrow> bool" where
  "isspace c \<longleftrightarrow>
     (9 \<le> c \<and> c \<le> 13) \<or> (28 \<le> c \<and> c \<le> 32) \<or> c = 133 \<or> c = 160 \<or> c = 5760 \<or>
     (8192 \<le> c \<and> c \<le> 8202) \<or> c = 8232 \<or> c = 8233 \<or> c = 8239 \<or> c = 8287 \<or> c = 12288"

definition strip :: "pystr \<Rightarrow> pystr" where
  "strip s = rev (dropWhile isspace (rev (dropWhile isspace s)))"

text \<open>
  \<open>s.split(sep)\<close> for a separator of one code point: every occurrence of \<open>sep\<close> ends a
  token, empty tokens are kept, and the result is never empty (\<open>"".split(",") == [""]\<close>).
\<close>

fun split :: "nat \<Rightarrow> pystr \<Rightarrow> pystr list" where
  "split sep [] = [[]]"
| "split sep (c # cs) =
     (if c = sep then [] # split sep cs
      else (case split sep cs of [] \<Rightarrow> [[c]] | t # ts \<Rightarrow> (c # t) # ts))"

fun join :: "pystr \<Rightarrow> pystr list \<Rightarrow> pystr" where
  "join sep [] = []"
| "join sep [x] = x"
| "join sep (x # y # ys) = x @ sep @ join sep (y # ys)"

definition comma :: nat where
  "comma = 44"

text \<open>Line 141: \<open>[k.strip() for k in new_input.split(",") if k.strip()]\<close>.\<close>

definition parse_keywords :: "pystr \<Rightarrow> pystr list" where
  "parse_keywords new_input = map strip (filter (\<lambda>k. strip k \<noteq> []) (split comma new_input))"

section \<open>Data of the application\<close>

text \<open>
  The objects returned by the extractor are read only through \<open>.dict()\<close>, so an object is
  modelled by that dictionary: an association list in the order of \<open>.items()\<close>.
  \<open>d[k]\<close> is \<open>map_of d k\<close> with \<open>None\<close> raising \<open>KeyError\<close>; \<open>d[k] = v\<close> is \<open>AList.update\<close>.
\<close>

type_synonym concept_matrix = "(pystr \<times> pystr) list"
type_synonym seed_keywords = "(pystr \<times> pystr list) list"

text \<open>An entry of \<open>final_url\<close>; the scores are floats, kept abstract as \<open>'f\<close>.\<close>

record 'f search_result =
  url :: pystr
  user_scenario :: 'f
  user_problem :: 'f

text \<open>
  The value returned by \<open>extract_keywords\<close>, read through \<open>.get(key)\<close> only (and through
  \<open>["final_url"]\<close> after \<open>.get("final_url")\<close> was true), so a missing key and a key holding
  \<open>None\<close> are the same value \<open>PyNone\<close> here.
\<close>

record 'f results =
  get_concept_matrix :: "concept_matrix nullable"
  get_seed_keywords :: "seed_keywords nullable"
  get_final_url :: "'f search_result list nullable"

datatype extractor_obj = CoreConceptExtractor

text \<open>The three dictionaries stored in \<open>feedback\<close>.\<close>

datatype feedback_action = Approve | Reject pystr | Edit seed_keywords

text \<open>
  \<open>st.session_state\<close>: every key is optional (\<open>None\<close> here means the key is not in the
  session; the Python value \<open>None\<close> is \<open>Some PyNone\<close>).
\<close>

record 'f session =
  extractor :: "extractor_obj option"
  current_state :: "'f results nullable option"
  concept_matrix :: "concept_matrix nullable option"
  seed_keywords :: "seed_keywords nullable option"
  keywords_approved :: "bool option"
  feedback :: "feedback_action nullable option"
  edited_keywords :: "seed_keywords nullable option"
  editing :: "bool option"

definition empty_session :: "'f session" where
  "empty_session =
     \<lparr>extractor = None, current_state = None, concept_matrix = None, seed_keywords = None,
      keywords_approved = None, feedback = None, edited_keywords = None, editing = None\<rparr>"

text \<open>
  What one run of the script receives from outside: the values the widgets return, and
  what the collaborator answers if it is called (its constructor and \<open>extract_keywords\<close>,
  either of which may raise).
\<close>

record 'f env =
  new_extractor :: "exn + extractor_obj"
  extract_keywords :: "pystr \<Rightarrow> exn + 'f results"
  input_text :: pystr
  start_button :: bool
  approve_button :: bool
  reject_button :: bool
  reject_feedback :: pystr
  submit_feedback_button :: bool
  edit_button :: bool
  edit_area :: "pystr \<Rightarrow> pystr \<Rightarrow> pystr"
  save_button :: bool

text \<open>What a run does that is visible outside the session: widgets and collaborator calls.\<close>

datatype 'f event =
    Page_config
  | Title string
  | Markdown_rule
  | Subheader string
  | Columns nat
  | Info string
  | Write pystr
  | Bullet pystr
  | Success string
  | Expander string
  | Text_area string
  | Button string
  | Spinner string
  | Call_extract_keywords pystr
  | Edit_area pystr pystr
  | Result_expander pystr
  | Write_score string 'f
  | Link pystr

text \<open>
  The result of running a piece of the script: the exception that ended it (if any), the
  session as it is then (assignments made before an exception stay), and the events.
\<close>

record 'f run =
  raised :: "exn option"
  sess :: "'f session"
  trace :: "'f event list"

definition ok :: "'f session \<Rightarrow> 'f event list \<Rightarrow> 'f run" where
  "ok s evs = \<lparr>raised = None, sess = s, trace = evs\<rparr>"

definition failed :: "exn \<Rightarrow> 'f session \<Rightarrow> 'f event list \<Rightarrow> 'f run" where
  "failed e s evs = \<lparr>raised = Some e, sess = s, trace = evs\<rparr>"

definition emit :: "'f event list \<Rightarrow> 'f session \<Rightarrow> 'f run" where
  "emit evs s = ok s evs"

text \<open>Statements in sequence: the first exception ends the run.\<close>

fun run_blocks :: "('f session \<Rightarrow> 'f run) list \<Rightarrow> 'f session \<Rightarrow> 'f run" where
  "run_blocks [] s = ok s []"
| "run_blocks (b # bs) s =
     (let r = b s in
      case raised r of
        Some e \<Rightarrow> r
      | None \<Rightarrow> (let r' = run_blocks bs (sess r) in r'\<lparr>trace := trace r @ trace r'\<rparr>))"

section \<open>The functions of \<open>app.py\<close>\<close>

subsection \<open>\<open>display_concept_matrix\<close> and \<open>display_seed_keywords\<close>\<close>

definition write_item :: "concept_matrix \<Rightarrow> pystr \<Rightarrow> 'f session \<Rightarrow> 'f run" where
  "write_item d k s =
     (case map_of d k of None \<Rightarrow> failed (KeyError k) s [] | Some v \<Rightarrow> ok s [Write v])"

definition display_concept_matrix :: "concept_matrix \<Rightarrow> 'f session \<Rightarrow> 'f run" where
  "display_concept_matrix d =
     run_blocks
       [emit [Subheader ''Concept Matrix'', Columns 3, Info ''Problem/Purpose''],
        write_item d (ascii ''problem_purpose''),
        emit [Info ''Object/System''],
        write_item d (ascii ''object_system''),
        emit [Info ''Environment/Field''],
        write_item d (ascii ''environment_field'')]"

definition write_bullets :: "seed_keywords \<Rightarrow> pystr \<Rightarrow> 'f session \<Rightarrow> 'f run" where
  "write_bullets d k s =
     (case map_of d k of None \<Rightarrow> failed (KeyError k) s [] | Some kws \<Rightarrow> ok s (map Bullet kws))"

definition display_seed_keywords :: "seed_keywords \<Rightarrow> 'f session \<Rightarrow> 'f run" where
  "display_seed_keywords d =
     run_blocks
       [emit [Subheader ''Generated Keywords'', Columns 3, Info ''Problem/Purpose Keywords''],
        write_bullets d (ascii ''problem_purpose''),
        emit [Info ''Object/System Keywords''],
        write_bullets d (ascii ''object_system''),
        emit [Info ''Environment/Field Keywords''],
        write_bullets d (ascii ''environment_field'')]"

subsection \<open>\<open>init_session_state\<close>\<close>

text \<open>Lines 53 to 64: each key is assigned only if it is not in the session.\<close>

definition init_defaults :: "'f session \<Rightarrow> 'f session" where
  "init_defaults s =
     (let s1 = (if current_state s = None then s\<lparr>current_state := Some PyNone\<rparr> else s);
          s2 = (if concept_matrix s1 = None then s1\<lparr>concept_matrix := Some PyNone\<rparr> else s1);
          s3 = (if seed_keywords s2 = None then s2\<lparr>seed_keywords := Some PyNone\<rparr> else s2);
          s4 = (if keywords_approved s3 = None then s3\<lparr>keywords_approved := Some False\<rparr> else s3);
          s5 = (if feedback s4 = None then s4\<lparr>feedback := Some PyNone\<rparr> else s4)
      in (if edited_keywords s5 = None then s5\<lparr>edited_keywords := Some PyNone\<rparr> else s5))"

text \<open>Lines 51 and 52 call the collaborator's constructor, which is the only step that can raise.\<close>

definition init_session_state :: "'f env \<Rightarrow> 'f session \<Rightarrow> 'f run" where
  "init_session_state env s =
     (case extractor s of
        Some x \<Rightarrow> ok (init_defaults s) []
      | None \<Rightarrow>
          (case new_extractor env of
             Inl e \<Rightarrow> failed e s []
           | Inr x \<Rightarrow> ok (init_defaults (s\<lparr>extractor := Some x\<rparr>)) []))"

subsection \<open>\<open>main\<close>, statement by statement\<close>

text \<open>Lines 67 to 71 and 75 to 86: page set-up and the input section.\<close>

definition page_config :: "'f session \<Rightarrow> 'f run" where
  "page_config = emit [Page_config]"

definition input_section :: "'f session \<Rightarrow> 'f run" where
  "input_section =
     emit [Title ''Patent Search Assistant'', Markdown_rule, Expander ''Enter Patent Idea'',
           Text_area ''Describe your patent idea'', Button ''Start Analysis'']"

text \<open>
  Lines 89 to 96. Reading \<open>st.session_state.extractor\<close> raises \<open>AttributeError\<close> when the
  key is missing; an exception of \<open>extract_keywords\<close> leaves line 91 before any assignment.
\<close>

definition start_analysis :: "'f env \<Rightarrow> 'f session \<Rightarrow> 'f run" where
  "start_analysis env s =
     (if start_button env \<and> input_text env \<noteq> [] then
        (case extractor s of
           None \<Rightarrow> failed AttributeError s [Spinner ''Analyzing your patent idea...'']
         | Some x \<Rightarrow>
             (case extract_keywords env (input_text env) of
                Inl e \<Rightarrow>
                  failed e s [Spinner ''Analyzing your patent idea...'',
                              Call_extract_keywords (input_text env)]
              | Inr results \<Rightarrow>
                  ok (s\<lparr>current_state := Some (Val results),
                        concept_matrix := Some (get_concept_matrix results),
                        seed_keywords := Some (get_seed_keywords results)\<rparr>)
                     [Spinner ''Analyzing your patent idea...'',
                      Call_extract_keywords (input_text env),
                      Success ''Initial analysis complete!'']))
      else ok s [])"

text \<open>Lines 110 to 113.\<close>

definition approve_action :: "'f env \<Rightarrow> 'f session \<Rightarrow> 'f run" where
  "approve_action env s =
     (if approve_button env then
        ok (s\<lparr>keywords_approved := Some True, feedback := Some (Val Approve)\<rparr>)
           [Button ''Approve Keywords'',
            Success ''Keywords approved! Processing will continue...'']
      else ok s [Button ''Approve Keywords''])"

text \<open>
  Lines 116 to 123. \<open>st.session_state.reject_feedback\<close> is the value of the text area
  created on line 117 with that key, given here by \<open>reject_feedback env\<close>.
\<close>

definition reject_action :: "'f env \<Rightarrow> 'f session \<Rightarrow> 'f run" where
  "reject_action env s =
     (if reject_button env then
        (if submit_feedback_button env then
           ok (s\<lparr>feedback := Some (Val (Reject (reject_feedback env)))\<rparr>)
              [Button ''Reject & Regenerate'', Text_area ''Feedback for regeneration'',
               Button ''Submit Feedback'', Info ''Feedback submitted, regenerating keywords...'']
         else
           ok s [Button ''Reject & Regenerate'', Text_area ''Feedback for regeneration'',
                 Button ''Submit Feedback''])
      else ok s [Button ''Reject & Regenerate''])"

text \<open>
  Lines 134 to 141, the loop over \<open>seed_keywords.dict().items()\<close>; \<open>edited\<close> is
  the local dictionary \<open>edited_keywords\<close>. The text area of a field
  (label \<open>"Edit " + field.replace('_', ' ').title()\<close>, key \<open>"edit_" + field\<close>) returns
  \<open>edit_area env field current_str\<close>.
\<close>

fun edit_loop :: "'f env \<Rightarrow> seed_keywords \<Rightarrow> seed_keywords \<Rightarrow> seed_keywords" where
  "edit_loop env [] edited = edited"
| "edit_loop env ((field, keywords) # items) edited =
     (let current_str = join (ascii '', '') keywords;
          new_input = edit_area env field current_str
      in edit_loop env items (AList.update field (parse_keywords new_input) edited))"

definition edit_loop_events :: "seed_keywords \<Rightarrow> 'f event list" where
  "edit_loop_events items = map (\<lambda>(field, keywords). Edit_area field (join (ascii '', '') keywords)) items"

text \<open>
  Lines 126 to 148. \<open>editing\<close> is assigned before \<open>seed_keywords\<close> is read, and
  \<open>.dict()\<close> on a missing key or on \<open>None\<close> raises \<open>AttributeError\<close>.
\<close>

definition edit_action :: "'f env \<Rightarrow> 'f session \<Rightarrow> 'f run" where
  "edit_action env s =
     (if edit_button env then
        (let s1 = s\<lparr>editing := Some True\<rparr>;
             evs1 = [Button ''Edit Keywords'',
                     Info ''Edit Keywords - Enter new keywords separated by commas'']
         in case seed_keywords s1 of
              None \<Rightarrow> failed AttributeError s1 evs1
            | Some PyNone \<Rightarrow> failed AttributeError s1 evs1
            | Some (Val d) \<Rightarrow>
                (let edited = edit_loop env d [];
                     evs2 = evs1 @ edit_loop_events d @ [Button ''Save Edited Keywords'']
                 in if save_button env then
                      ok (s1\<lparr>feedback := Some (Val (Edit edited))\<rparr>)
                         (evs2 @ [Success ''Keywords updated!''])
                    else ok s1 evs2))
      else ok s [Button ''Edit Keywords''])"

text \<open>
  Lines 99 to 148. The two values tested on line 99 are \<open>None\<close> or objects of the
  extractor that offer \<open>.dict()\<close> and define neither \<open>__bool__\<close> nor \<open>__len__\<close>, so
  only \<open>None\<close> is false; \<open>and\<close> reads \<open>seed_keywords\<close> only when \<open>concept_matrix\<close>
  is true. Reading a key that is not in the session raises \<open>AttributeError\<close>.
\<close>

definition feedback_section :: "'f env \<Rightarrow> 'f session \<Rightarrow> 'f run" where
  "feedback_section env s =
     (case concept_matrix s of
        None \<Rightarrow> failed AttributeError s []
      | Some PyNone \<Rightarrow> ok s []
      | Some (Val cm) \<Rightarrow>
          (case seed_keywords s of
             None \<Rightarrow> failed AttributeError s []
           | Some PyNone \<Rightarrow> ok s []
           | Some (Val sk) \<Rightarrow>
               run_blocks
                 [display_concept_matrix cm,
                  display_seed_keywords sk,
                  emit [Markdown_rule, Subheader ''Feedback & Actions'', Columns 3],
                  approve_action env,
                  reject_action env,
                  edit_action env] s))"

text \<open>Lines 155 to 159, one result.\<close>

definition display_result :: "'f search_result \<Rightarrow> 'f event list" where
  "display_result result =
     [Result_expander (url result),
      Write_score ''User Scenario Score: '' (user_scenario result),
      Write_score ''User Problem Score: '' (user_problem result),
      Link (url result)]"

text \<open>
  Lines 151 to 159. \<open>and\<close> reads \<open>current_state\<close> only when \<open>keywords_approved\<close> is true;
  \<open>.get\<close> on \<open>None\<close> raises \<open>AttributeError\<close>.
\<close>

definition display_final_results :: "'f session \<Rightarrow> 'f run" where
  "display_final_results s =
     (case keywords_approved s of
        None \<Rightarrow> failed AttributeError s []
      | Some False \<Rightarrow> ok s []
      | Some True \<Rightarrow>
          (case current_state s of
             None \<Rightarrow> failed AttributeError s []
           | Some PyNone \<Rightarrow> failed AttributeError s []
           | Some (Val results) \<Rightarrow>
               (if truthy_list (get_final_url results) then
                  (case get_final_url results of
                     PyNone \<Rightarrow> failed (KeyError (ascii ''final_url'')) s []
                   | Val final_url \<Rightarrow>
                       ok s ([Markdown_rule, Subheader ''Search Results'']
                             @ concat (map display_result final_url)))
                else ok s [])))"

definition main :: "'f env \<Rightarrow> 'f session \<Rightarrow> 'f run" where
  "main env =
     run_blocks
       [page_config,
        init_session_state env,
        input_section,
        start_analysis env,
        feedback_section env,
        display_final_results]"

text \<open>The session after a sequence of runs of the script (one run per user interaction).\<close>

fun runs :: "'f env list \<Rightarrow> 'f session \<Rightarrow> 'f session" where
  "runs [] s = s"
| "runs (env # envs) s = runs envs (sess (main env s))"

section \<open>Notions used to state the properties\<close>

text \<open>The value a key has after \<open>if key not in st.session_state: st.session_state.key = d\<close>.\<close>

definition or_default :: "'a \<Rightarrow> 'a option \<Rightarrow> 'a option" where
  "or_default d v = (case v of None \<Rightarrow> Some d | Some x \<Rightarrow> Some x)"

text \<open>A session in which the seven keys of \<open>init_session_state\<close> are present.\<close>

definition initialised :: "'f session \<Rightarrow> bool" where
  "initialised s \<longleftrightarrow>
     extractor s \<noteq> None \<and> current_state s \<noteq> None \<and> concept_matrix s \<noteq> None \<and>
     seed_keywords s \<noteq> None \<and> keywords_approved s \<noteq> None \<and> feedback s \<noteq> None \<and>
     edited_keywords s \<noteq> None"

text \<open>A key that is present and holds a value other than \<open>None\<close>.\<close>

fun populated :: "'a nullable option \<Rightarrow> bool" where
  "populated (Some (Val x)) = True"
| "populated (Some PyNone) = False"
| "populated None = False"

text \<open>
  Modelled from the spec: the extraction collaborator (\<open>src.core.extractor\<close>, not part
  of \<open>app.py\<close>) is specified as returning a record with a concept matrix and seed
  keywords, and optionally the final results; a successful answer carries both.
\<close>

definition extractor_contract :: "(pystr \<Rightarrow> exn + 'f results) \<Rightarrow> bool" where
  "extractor_contract ex \<longleftrightarrow>
     (\<forall>text r. ex text = Inr r \<longrightarrow>
        get_concept_matrix r \<noteq> PyNone \<and> get_seed_keywords r \<noteq> PyNone)"

text \<open>\<open>concept_matrix\<close> and \<open>seed_keywords\<close> are both present or both absent, as keys and as values.\<close>

definition both_or_neither :: "'f session \<Rightarrow> bool" where
  "both_or_neither s \<longleftrightarrow>
     (concept_matrix s = None \<longleftrightarrow> seed_keywords s = None) \<and>
     (populated (concept_matrix s) \<longleftrightarrow> populated (seed_keywords s))"

text \<open>An approved session, and one holding a concept matrix, holds the extractor's answer.\<close>

definition results_known :: "'f session \<Rightarrow> bool" where
  "results_known s \<longleftrightarrow>
     (keywords_approved s = Some True \<or> populated (concept_matrix s) \<longrightarrow>
        populated (current_state s))"

text \<open>The three categories that the two display functions read.\<close>

definition required_categories :: "pystr list" where
  "required_categories =
     [ascii ''problem_purpose'', ascii ''object_system'', ascii ''environment_field'']"

definition has_categories :: "(pystr \<times> 'v) list \<Rightarrow> bool" where
  "has_categories d = list_all (\<lambda>k. map_of d k \<noteq> None) required_categories"

subsection \<open>Concrete runs and sessions\<close>

text \<open>
  An extractor answer with the three categories, a run in which nothing is clicked, and the
  sessions after an analysis and after an approval. Scores are written as decimal literals.
\<close>

definition example_seed_keywords :: seed_keywords where
  "example_seed_keywords =
     [(ascii ''problem_purpose'', [ascii ''contaminant removal'']),
      (ascii ''object_system'', [ascii ''filter'', ascii ''membrane'']),
      (ascii ''environment_field'', [ascii ''home'', ascii ''residential''])]"

definition example_results :: "string results" where
  "example_results =
     \<lparr>get_concept_matrix =
        Val [(ascii ''problem_purpose'', ascii ''removing contaminants''),
             (ascii ''object_system'', ascii ''filter''),
             (ascii ''environment_field'', ascii ''residential water systems'')],
      get_seed_keywords = Val example_seed_keywords,
      get_final_url = PyNone\<rparr>"

definition idle_env :: "string env" where
  "idle_env =
     \<lparr>new_extractor = Inr CoreConceptExtractor,
      extract_keywords = (\<lambda>text. Inr example_results),
      input_text = [],
      start_button = False,
      approve_button = False,
      reject_button = False,
      reject_feedback = [],
      submit_feedback_button = False,
      edit_button = False,
      edit_area = (\<lambda>field current_str. current_str),
      save_button = False\<rparr>"

definition analysed_session :: "string session" where
  "analysed_session =
     \<lparr>extractor = Some CoreConceptExtractor,
      current_state = Some (Val example_results),
      concept_matrix = Some (get_concept_matrix example_results),
      seed_keywords = Some (get_seed_keywords example_results),
      keywords_approved = Some False,
      feedback = Some PyNone,
      edited_keywords = Some PyNone,
      editing = None\<rparr>"



definition edit_env :: "string env" where
  "edit_env =
     idle_env\<lparr>edit_button := True, save_button := True,
       edit_area := (\<lambda>field current_str.
         if field = ascii ''problem_purpose'' then ascii ''a, b ,, c'' else current_str)\<rparr>"

text \<open>A run in which Start Analysis is clicked and the extractor raises.\<close>

definition failing_env :: "string env" where
  "failing_env =
     idle_env\<lparr>start_button := True, input_text := ascii ''idea'',
       extract_keywords := (\<lambda>text. Inl (CollaboratorError (ascii ''timeout'')))\<rparr>"

definition approved_session :: "string session" where
  "approved_session = analysed_session\<lparr>keywords_approved := Some True, feedback := Some (Val Approve)\<rparr>"

section \<open>Basic facts about runs\<close>

lemma ok_sel [simp]: "raised (ok s evs) = None" "sess (ok s evs) = s" "trace (ok s evs) = evs"
  by (simp_all add: ok_def)

lemma failed_sel [simp]:
  "raised (failed e s evs) = Some e" "sess (failed e s evs) = s" "trace (failed e s evs) = evs"
  by (simp_all add: failed_def)

lemma emit_sel [simp]: "raised (emit evs s) = None" "sess (emit evs s) = s" "trace (emit evs s) = evs"
  by (simp_all add: emit_def)

lemma run_blocks_Cons_sess:
  "sess (run_blocks (b # bs) s) =
     (case raised (b s) of Some e \<Rightarrow> sess (b s) | None \<Rightarrow> sess (run_blocks bs (sess (b s))))"
  by (simp add: Let_def split: option.split)

lemma run_blocks_Cons_raised:
  "raised (run_blocks (b # bs) s) =
     (case raised (b s) of Some e \<Rightarrow> Some e | None \<Rightarrow> raised (run_blocks bs (sess (b s))))"
  by (simp add: Let_def split: option.split)

lemma run_blocks_Cons_trace:
  "trace (run_blocks (b # bs) s) =
     (case raised (b s) of Some e \<Rightarrow> trace (b s)
      | None \<Rightarrow> trace (b s) @ trace (run_blocks bs (sess (b s))))"
  by (simp add: Let_def split: option.split)

declare run_blocks.simps(2) [simp del]

text \<open>A property of the session that every statement keeps is kept by the sequence.\<close>

lemma run_blocks_inv:
  assumes "\<And>b s. b \<in> set bs \<Longrightarrow> P s \<Longrightarrow> P (sess (b s))" and "P s"
  shows "P (sess (run_blocks bs s))"
  using assms
proof (induction bs arbitrary: s)
  case Nil
  then show ?case by simp
next
  case (Cons b bs)
  have step: "P (sess (b s))" using Cons.prems by simp
  show ?case
  proof (cases "raised (b s)")
    case None
    have "P (sess (run_blocks bs (sess (b s))))"
      using Cons.IH [of "sess (b s)"] Cons.prems(1) step by simp
    with None show ?thesis by (simp add: run_blocks_Cons_sess)
  next
    case (Some e)
    with step show ?thesis by (simp add: run_blocks_Cons_sess)
  qed
qed

lemma run_blocks_preserves:
  assumes "\<And>b s. b \<in> set bs \<Longrightarrow> f (sess (b s)) = f s"
  shows "f (sess (run_blocks bs s)) = f s"
proof -
  have "(\<lambda>t. f t = f s) (sess (run_blocks bs s))"
    by (rule run_blocks_inv) (simp_all add: assms)
  then show ?thesis .
qed

lemma run_blocks_events:
  assumes "\<And>b s. b \<in> set bs \<Longrightarrow> set (trace (b s)) \<subseteq> A"
  shows "set (trace (run_blocks bs s)) \<subseteq> A"
  using assms
proof (induction bs arbitrary: s)
  case Nil
  then show ?case by simp
next
  case (Cons b bs)
  have h: "set (trace (b s)) \<subseteq> A" using Cons.prems by simp
  have t: "set (trace (run_blocks bs (sess (b s)))) \<subseteq> A"
    using Cons.IH Cons.prems by simp
  show ?case using h t by (simp add: run_blocks_Cons_trace split: option.split)
qed

section \<open>\<open>init_session_state\<close>\<close>

lemma or_default_simps [simp]:
  "or_default d None = Some d" "or_default d (Some x) = Some x"
  "or_default d v \<noteq> None" "or_default d (or_default d v) = or_default d v"
  by (simp_all add: or_default_def split: option.split)

lemma or_default_id: "v \<noteq> None \<Longrightarrow> or_default d v = v"
  by (cases v) simp_all

lemma init_defaults_eq:
  "init_defaults s =
     s\<lparr>current_state := or_default PyNone (current_state s),
       concept_matrix := or_default PyNone (concept_matrix s),
       seed_keywords := or_default PyNone (seed_keywords s),
       keywords_approved := or_default False (keywords_approved s),
       feedback := or_default PyNone (feedback s),
       edited_keywords := or_default PyNone (edited_keywords s)\<rparr>"
  by (cases "current_state s"; cases "concept_matrix s"; cases "seed_keywords s";
      cases "keywords_approved s"; cases "feedback s"; cases "edited_keywords s")
     (simp_all add: init_defaults_def or_default_def)

lemma init_defaults_id:
  "current_state s \<noteq> None \<Longrightarrow> concept_matrix s \<noteq> None \<Longrightarrow> seed_keywords s \<noteq> None \<Longrightarrow>
   keywords_approved s \<noteq> None \<Longrightarrow> feedback s \<noteq> None \<Longrightarrow> edited_keywords s \<noteq> None \<Longrightarrow>
   init_defaults s = s"
  by (simp add: init_defaults_eq or_default_id)

lemma init_defaults_idem: "init_defaults (init_defaults s) = init_defaults s"
  by (simp add: init_defaults_eq)

lemma init_session_state_idem:
  "sess (init_session_state env (sess (init_session_state env s))) = sess (init_session_state env s)"
  by (cases "extractor s"; cases "new_extractor env")
     (simp_all add: init_session_state_def init_defaults_idem, simp_all add: init_defaults_eq)

lemma init_session_state_initialised:
  "initialised s \<Longrightarrow> init_session_state env s = ok s []"
  by (auto simp add: initialised_def init_session_state_def init_defaults_id)

lemma init_session_state_fields:
  "extractor s = Some x \<Longrightarrow> extractor (sess (init_session_state env s)) = Some x"
  "current_state s = Some a \<Longrightarrow> current_state (sess (init_session_state env s)) = Some a"
  "concept_matrix s = Some b \<Longrightarrow> concept_matrix (sess (init_session_state env s)) = Some b"
  "seed_keywords s = Some c \<Longrightarrow> seed_keywords (sess (init_session_state env s)) = Some c"
  "keywords_approved s = Some d \<Longrightarrow> keywords_approved (sess (init_session_state env s)) = Some d"
  "feedback s = Some e \<Longrightarrow> feedback (sess (init_session_state env s)) = Some e"
  "edited_keywords s = Some g \<Longrightarrow> edited_keywords (sess (init_session_state env s)) = Some g"
  "editing (sess (init_session_state env s)) = editing s"
  by (cases "extractor s"; cases "new_extractor env";
      simp add: init_session_state_def init_defaults_eq)+

text \<open>
  C10. \<open>init_session_state\<close> assigns a key only when it is absent: a key that is present
  keeps its value, a session with all seven keys is returned unchanged (and the constructor
  of the extractor is not called, so nothing can be raised), and running it twice is the
  same as running it once.
\<close>

theorem init_session_state_preserves_present_keys:
  "(\<forall>x. extractor s = Some x \<longrightarrow> extractor (sess (init_session_state env s)) = Some x) \<and>
   (\<forall>a. current_state s = Some a \<longrightarrow> current_state (sess (init_session_state env s)) = Some a) \<and>
   (\<forall>b. concept_matrix s = Some b \<longrightarrow> concept_matrix (sess (init_session_state env s)) = Some b) \<and>
   (\<forall>c. seed_keywords s = Some c \<longrightarrow> seed_keywords (sess (init_session_state env s)) = Some c) \<and>
   (\<forall>d. keywords_approved s = Some d \<longrightarrow>
      keywords_approved (sess (init_session_state env s)) = Some d) \<and>
   (\<forall>e. feedback s = Some e \<longrightarrow> feedback (sess (init_session_state env s)) = Some e) \<and>
   (\<forall>g. edited_keywords s = Some g \<longrightarrow>
      edited_keywords (sess (init_session_state env s)) = Some g) \<and>
   editing (sess (init_session_state env s)) = editing s \<and>
   (initialised s \<longrightarrow> init_session_state env s = ok s []) \<and>
   sess (init_session_state env (sess (init_session_state env s))) =
     sess (init_session_state env s)"
  by (simp add: init_session_state_fields init_session_state_initialised
      init_session_state_idem)

theorem init_session_state_preserves_present_keys_witness:
  "initialised approved_session \<and>
   keywords_approved approved_session = Some True \<and>
   feedback approved_session = Some (Val Approve) \<and>
   init_session_state idle_env approved_session = ok approved_session [] \<and>
   keywords_approved (sess (init_session_state idle_env approved_session)) = Some True \<and>
   feedback (sess (init_session_state idle_env approved_session)) = Some (Val Approve)"
  using init_session_state_preserves_present_keys [of approved_session idle_env]
  by (simp add: initialised_def approved_session_def analysed_session_def)

section \<open>What each statement of \<open>main\<close> changes\<close>

lemma write_item_sess [simp]: "sess (write_item d k s) = s"
  by (simp add: write_item_def split: option.split)

lemma write_bullets_sess [simp]: "sess (write_bullets d k s) = s"
  by (simp add: write_bullets_def split: option.split)

lemma display_concept_matrix_sess [simp]: "sess (display_concept_matrix d s) = s"
  unfolding display_concept_matrix_def
  by (rule run_blocks_preserves [where f = "\<lambda>t. t"]) auto

lemma display_seed_keywords_sess [simp]: "sess (display_seed_keywords d s) = s"
  unfolding display_seed_keywords_def
  by (rule run_blocks_preserves [where f = "\<lambda>t. t"]) auto

lemma approve_action_sess:
  "sess (approve_action env s) =
     (if approve_button env
      then s\<lparr>keywords_approved := Some True, feedback := Some (Val Approve)\<rparr> else s)"
  by (simp add: approve_action_def)

lemma reject_action_sess:
  "sess (reject_action env s) =
     (if reject_button env \<and> submit_feedback_button env
      then s\<lparr>feedback := Some (Val (Reject (reject_feedback env)))\<rparr> else s)"
  by (simp add: reject_action_def)

lemma edit_action_frame [simp]:
  "current_state (sess (edit_action env s)) = current_state s"
  "concept_matrix (sess (edit_action env s)) = concept_matrix s"
  "seed_keywords (sess (edit_action env s)) = seed_keywords s"
  "keywords_approved (sess (edit_action env s)) = keywords_approved s"
  "extractor (sess (edit_action env s)) = extractor s"
  "edited_keywords (sess (edit_action env s)) = edited_keywords s"
  by (simp_all add: edit_action_def Let_def split: option.split nullable.split)

lemma display_final_results_sess [simp]: "sess (display_final_results s) = s"
  by (simp add: display_final_results_def split: option.split nullable.split bool.split)

lemma section_blocks_frame:
  "current_state (sess (run_blocks [display_concept_matrix cm, display_seed_keywords sk, emit evs,
      approve_action env, reject_action env, edit_action env] s)) = current_state s"
  "concept_matrix (sess (run_blocks [display_concept_matrix cm, display_seed_keywords sk, emit evs,
      approve_action env, reject_action env, edit_action env] s)) = concept_matrix s"
  "seed_keywords (sess (run_blocks [display_concept_matrix cm, display_seed_keywords sk, emit evs,
      approve_action env, reject_action env, edit_action env] s)) = seed_keywords s"
  "extractor (sess (run_blocks [display_concept_matrix cm, display_seed_keywords sk, emit evs,
      approve_action env, reject_action env, edit_action env] s)) = extractor s"
  "edited_keywords (sess (run_blocks [display_concept_matrix cm, display_seed_keywords sk, emit evs,
      approve_action env, reject_action env, edit_action env] s)) = edited_keywords s"
  by (rule run_blocks_preserves; auto simp add: approve_action_sess reject_action_sess)+

lemma section_blocks_approved:
  "\<not> approve_button env \<Longrightarrow>
   keywords_approved (sess (run_blocks [display_concept_matrix cm, display_seed_keywords sk,
      emit evs, approve_action env, reject_action env, edit_action env] s)) = keywords_approved s"
  by (rule run_blocks_preserves; auto simp add: approve_action_sess reject_action_sess)

lemma feedback_section_frame [simp]:
  "current_state (sess (feedback_section env s)) = current_state s"
  "concept_matrix (sess (feedback_section env s)) = concept_matrix s"
  "seed_keywords (sess (feedback_section env s)) = seed_keywords s"
  "extractor (sess (feedback_section env s)) = extractor s"
  "edited_keywords (sess (feedback_section env s)) = edited_keywords s"
  by (simp_all add: feedback_section_def section_blocks_frame split: option.split nullable.split)

lemma feedback_section_approved:
  "\<not> approve_button env \<Longrightarrow>
   keywords_approved (sess (feedback_section env s)) = keywords_approved s"
  by (simp add: feedback_section_def section_blocks_approved split: option.split nullable.split)

lemma start_analysis_approved [simp]:
  "keywords_approved (sess (start_analysis env s)) = keywords_approved s"
  by (simp add: start_analysis_def split: option.split sum.split)


lemma main_sess:
  "sess (main env s) =
     (case raised (init_session_state env s) of
        Some e \<Rightarrow> sess (init_session_state env s)
      | None \<Rightarrow> sess (run_blocks [input_section, start_analysis env, feedback_section env,
                    display_final_results] (sess (init_session_state env s))))"
  by (simp add: main_def run_blocks_Cons_sess page_config_def split: option.split)

lemma main_raised:
  "raised (main env s) =
     (case raised (init_session_state env s) of
        Some e \<Rightarrow> Some e
      | None \<Rightarrow> raised (run_blocks [input_section, start_analysis env, feedback_section env,
                    display_final_results] (sess (init_session_state env s))))"
  by (simp add: main_def run_blocks_Cons_raised page_config_def split: option.split)

lemma init_session_state_raised_sess:
  "raised (init_session_state env s) = Some e \<Longrightarrow> sess (init_session_state env s) = s"
  by (simp add: init_session_state_def split: option.splits sum.splits)

lemma init_session_state_extractor:
  "raised (init_session_state env s) = None \<Longrightarrow> extractor (sess (init_session_state env s)) \<noteq> None"
  by (auto simp add: init_session_state_def init_defaults_eq split: option.splits sum.splits)

lemma init_session_state_approved:
  "keywords_approved (sess (init_session_state env s)) = Some True \<Longrightarrow> keywords_approved s = Some True"
  by (cases "keywords_approved s")
     (auto simp add: init_session_state_def init_defaults_eq split: option.splits sum.splits)

lemma start_analysis_skip: "\<not> (start_button env \<and> input_text env \<noteq> []) \<Longrightarrow> start_analysis env s = ok s []"
  by (auto simp add: start_analysis_def)

lemma rest_frame_no_start:
  assumes "\<not> (start_button env \<and> input_text env \<noteq> [])"
  shows
  "current_state (sess (run_blocks [input_section, start_analysis env, feedback_section env,
      display_final_results] s)) = current_state s"
  "concept_matrix (sess (run_blocks [input_section, start_analysis env, feedback_section env,
      display_final_results] s)) = concept_matrix s"
  "seed_keywords (sess (run_blocks [input_section, start_analysis env, feedback_section env,
      display_final_results] s)) = seed_keywords s"
  using assms
  by (intro run_blocks_preserves; auto simp add: input_section_def start_analysis_skip)+

lemma rest_approved:
  assumes "\<not> approve_button env"
  shows "keywords_approved (sess (run_blocks [input_section, start_analysis env,
      feedback_section env, display_final_results] s)) = keywords_approved s"
  using assms
  by (intro run_blocks_preserves; auto simp add: input_section_def feedback_section_approved)

lemma main_frame_no_start:
  assumes "\<not> (start_button env \<and> input_text env \<noteq> [])"
  shows "current_state (sess (main env s)) = current_state (sess (init_session_state env s))"
    and "concept_matrix (sess (main env s)) = concept_matrix (sess (init_session_state env s))"
    and "seed_keywords (sess (main env s)) = seed_keywords (sess (init_session_state env s))"
  using assms by (simp_all add: main_sess rest_frame_no_start split: option.split)

lemma main_approved:
  assumes "\<not> approve_button env"
  shows "keywords_approved (sess (main env s)) = keywords_approved (sess (init_session_state env s))"
  using assms by (simp add: main_sess rest_approved split: option.split)

section \<open>Calls of the extractor\<close>

lemma run_blocks_no_event:
  assumes "\<And>b s. b \<in> set bs \<Longrightarrow> ev \<notin> set (trace (b s))"
  shows "ev \<notin> set (trace (run_blocks bs s))"
proof -
  have "set (trace (run_blocks bs s)) \<subseteq> - {ev}"
    by (rule run_blocks_events) (use assms in auto)
  then show ?thesis by auto
qed

lemma write_no_call [simp]:
  "Call_extract_keywords t \<notin> set (trace (write_item cm k s))"
  "Call_extract_keywords t \<notin> set (trace (write_bullets sk k s))"
  by (auto simp add: write_item_def write_bullets_def split: option.splits)

lemma display_no_call [simp]:
  "Call_extract_keywords t \<notin> set (trace (display_concept_matrix cm s))"
  "Call_extract_keywords t \<notin> set (trace (display_seed_keywords sk s))"
  unfolding display_concept_matrix_def display_seed_keywords_def
  by (rule run_blocks_no_event; auto)+

lemma actions_no_call [simp]:
  "Call_extract_keywords t \<notin> set (trace (approve_action env s))"
  "Call_extract_keywords t \<notin> set (trace (reject_action env s))"
  "Call_extract_keywords t \<notin> set (trace (edit_action env s))"
  by (auto simp add: approve_action_def reject_action_def edit_action_def edit_loop_events_def
      Let_def split: option.splits nullable.splits)

lemma feedback_section_no_call [simp]:
  "Call_extract_keywords t \<notin> set (trace (feedback_section env s))"
proof -
  have "Call_extract_keywords t \<notin> set (trace (run_blocks [display_concept_matrix cm,
      display_seed_keywords sk, emit [Markdown_rule, Subheader h, Columns n],
      approve_action env, reject_action env, edit_action env] s))" for cm sk h n
    by (rule run_blocks_no_event) auto
  then show ?thesis
    by (simp add: feedback_section_def split: option.split nullable.split)
qed

lemma display_final_results_no_call [simp]:
  "Call_extract_keywords t \<notin> set (trace (display_final_results s))"
  by (auto simp add: display_final_results_def display_result_def
      split: option.splits nullable.splits bool.splits if_splits)

lemma init_session_state_trace [simp]: "trace (init_session_state env s) = []"
  by (simp add: init_session_state_def split: option.split sum.split)

lemma main_no_call:
  assumes "\<not> (start_button env \<and> input_text env \<noteq> [])"
  shows "Call_extract_keywords t \<notin> set (trace (main env s))"
  unfolding main_def
  by (rule run_blocks_no_event)
     (use assms in \<open>auto simp add: page_config_def input_section_def start_analysis_skip\<close>)

lemma runs_approved:
  "\<forall>env\<in>set envs. \<not> approve_button env \<Longrightarrow>
   keywords_approved (runs envs s) = Some True \<Longrightarrow> keywords_approved s = Some True"
proof (induction envs arbitrary: s)
  case Nil
  then show ?case by simp
next
  case (Cons env envs)
  have "keywords_approved (sess (main env s)) = Some True"
    using Cons by simp
  then show ?case
    using Cons.prems(1) by (simp add: main_approved init_session_state_approved)
qed


lemma init_session_state_not_approved:
  "keywords_approved s \<noteq> Some True \<Longrightarrow>
   keywords_approved (sess (init_session_state env s)) \<noteq> Some True"
  using init_session_state_approved by blast

lemma runs_not_approved:
  "\<forall>env\<in>set envs. \<not> approve_button env \<Longrightarrow> keywords_approved s \<noteq> Some True \<Longrightarrow>
   keywords_approved (runs envs s) \<noteq> Some True"
  using runs_approved by blast

section \<open>Invariants of the session\<close>

lemma populated_or_default [simp]: "populated (or_default PyNone v) = populated v"
  by (cases v) simp_all

lemma populated_iff: "populated v \<longleftrightarrow> (\<exists>x. v = Some (Val x))"
  by (cases v rule: populated.cases) simp_all

lemma init_session_state_cases:
  "sess (init_session_state env s) = s \<or> sess (init_session_state env s) = init_defaults s \<or>
   (\<exists>x. sess (init_session_state env s) = init_defaults (s\<lparr>extractor := Some x\<rparr>))"
  by (cases "extractor s"; cases "new_extractor env") (auto simp add: init_session_state_def)

lemma init_defaults_both_or_neither:
  "both_or_neither s \<Longrightarrow> both_or_neither (init_defaults s)"
  "both_or_neither s \<Longrightarrow> both_or_neither (init_defaults (s\<lparr>extractor := x\<rparr>))"
  by (simp_all add: both_or_neither_def init_defaults_eq)

lemma init_session_state_both_or_neither:
  "both_or_neither s \<Longrightarrow> both_or_neither (sess (init_session_state env s))"
  using init_session_state_cases [of env s] init_defaults_both_or_neither [of s] by auto

lemma not_PyNone_iff: "v \<noteq> PyNone \<longleftrightarrow> (\<exists>x. v = Val x)"
  by (cases v) simp_all

lemma start_analysis_both_or_neither:
  assumes "extractor_contract (extract_keywords env)" and "both_or_neither s"
  shows "both_or_neither (sess (start_analysis env s))"
proof (cases "start_button env \<and> input_text env \<noteq> []")
  case False
  then show ?thesis using assms(2) by (simp add: start_analysis_skip)
next
  case True
  show ?thesis
  proof (cases "extractor s")
    case None
    with True assms(2) show ?thesis by (simp add: start_analysis_def)
  next
    case (Some x)
    show ?thesis
    proof (cases "extract_keywords env (input_text env)")
      case (Inl e)
      with True Some assms(2) show ?thesis by (simp add: start_analysis_def)
    next
      case (Inr r)
      then obtain cm sk where "get_concept_matrix r = Val cm" "get_seed_keywords r = Val sk"
        using assms(1) unfolding extractor_contract_def not_PyNone_iff by blast
      with True Some Inr show ?thesis
        by (simp add: start_analysis_def both_or_neither_def)
    qed
  qed
qed

lemma feedback_section_both_or_neither:
  "both_or_neither s \<Longrightarrow> both_or_neither (sess (feedback_section env s))"
  by (simp add: both_or_neither_def)

lemma main_both_or_neither:
  assumes "extractor_contract (extract_keywords env)" and "both_or_neither s"
  shows "both_or_neither (sess (main env s))"
  unfolding main_def
  by (rule run_blocks_inv [where P = both_or_neither])
     (use assms in \<open>auto simp add: page_config_def input_section_def
        init_session_state_both_or_neither start_analysis_both_or_neither
        feedback_section_both_or_neither\<close>)

lemma runs_both_or_neither:
  "\<forall>env\<in>set envs. extractor_contract (extract_keywords env) \<Longrightarrow> both_or_neither s \<Longrightarrow>
   both_or_neither (runs envs s)"
  by (induction envs arbitrary: s) (simp_all add: main_both_or_neither)

lemma main_fields_after_start:
  "concept_matrix (sess (run_blocks [input_section, start_analysis env, feedback_section env,
      display_final_results] s)) = concept_matrix (sess (start_analysis env s))"
  "seed_keywords (sess (run_blocks [input_section, start_analysis env, feedback_section env,
      display_final_results] s)) = seed_keywords (sess (start_analysis env s))"
  "current_state (sess (run_blocks [input_section, start_analysis env, feedback_section env,
      display_final_results] s)) = current_state (sess (start_analysis env s))"
  by (simp_all add: run_blocks_Cons_sess input_section_def split: option.split)

lemma start_analysis_calls:
  "start_button env \<Longrightarrow> input_text env \<noteq> [] \<Longrightarrow> extractor s \<noteq> None \<Longrightarrow>
   Call_extract_keywords (input_text env) \<in> set (trace (start_analysis env s))"
  by (auto simp add: start_analysis_def split: sum.split)

lemma main_trace_start:
  "raised (init_session_state env s) = None \<Longrightarrow>
   ev \<in> set (trace (start_analysis env (sess (init_session_state env s)))) \<Longrightarrow>
   ev \<in> set (trace (main env s))"
  by (auto simp add: main_def run_blocks_Cons_trace page_config_def input_section_def
      split: option.split)

lemma main_fields_start:
  "raised (init_session_state env s) = None \<Longrightarrow>
   concept_matrix (sess (main env s)) =
     concept_matrix (sess (start_analysis env (sess (init_session_state env s))))"
  "raised (init_session_state env s) = None \<Longrightarrow>
   seed_keywords (sess (main env s)) =
     seed_keywords (sess (start_analysis env (sess (init_session_state env s))))"
  "raised (init_session_state env s) = None \<Longrightarrow>
   current_state (sess (main env s)) =
     current_state (sess (start_analysis env (sess (init_session_state env s))))"
  by (simp_all add: main_sess main_fields_after_start)

lemma init_session_state_results_known:
  "results_known s \<Longrightarrow> results_known (sess (init_session_state env s))"
proof -
  have "results_known (init_defaults (t\<lparr>extractor := x\<rparr>))" "results_known (init_defaults t)"
    if "results_known t" for t :: "'a session" and x
    using that
    by (cases "keywords_approved t"; simp add: results_known_def init_defaults_eq)+
  then show "results_known s \<Longrightarrow> results_known (sess (init_session_state env s))"
    using init_session_state_cases [of env s] by auto
qed

lemma start_analysis_results_known:
  "results_known s \<Longrightarrow> results_known (sess (start_analysis env s))"
  by (auto simp add: start_analysis_def results_known_def split: option.split sum.split)

lemma feedback_section_approved_cases:
  "keywords_approved (sess (feedback_section env s)) = keywords_approved s \<or>
   populated (concept_matrix s)"
  by (cases "concept_matrix s" rule: populated.cases)
     (simp_all add: feedback_section_def)

lemma feedback_section_results_known:
  "results_known s \<Longrightarrow> results_known (sess (feedback_section env s))"
  using feedback_section_approved_cases [of env s] by (auto simp add: results_known_def)

lemma main_results_known:
  assumes "results_known s"
  shows "results_known (sess (main env s))"
  unfolding main_def
  by (rule run_blocks_inv [where P = results_known])
     (use assms in \<open>auto simp add: page_config_def input_section_def
        init_session_state_results_known start_analysis_results_known
        feedback_section_results_known\<close>)

lemma runs_results_known: "results_known s \<Longrightarrow> results_known (runs envs s)"
  by (induction envs arbitrary: s) (simp_all add: main_results_known)

lemma runs_empty_results_known: "results_known (runs envs empty_session)"
  by (rule runs_results_known) (simp add: results_known_def empty_session_def)

section \<open>Strings and the edit loop\<close>

lemma split_nonempty [simp]: "split sep s \<noteq> []"
  by (induction s) (simp_all split: list.split)

lemma join_Cons_head: "join sep ((c # t) # ts) = c # join sep (t # ts)"
  by (cases ts) simp_all

lemma join_split: "join [sep] (split sep s) = s"
proof (induction s)
  case Nil
  then show ?case by simp
next
  case (Cons c cs)
  obtain t ts where ts: "split sep cs = t # ts"
    by (cases "split sep cs") simp_all
  show ?case using Cons ts by (simp add: join_Cons_head)
qed

lemma split_no_sep: "t \<in> set (split sep s) \<Longrightarrow> sep \<notin> set t"
proof (induction s arbitrary: t)
  case Nil
  then show ?case by simp
next
  case (Cons c cs)
  obtain u us where us: "split sep cs = u # us"
    by (cases "split sep cs") simp_all
  show ?case using Cons us by (auto split: if_splits)
qed

lemma strip_decomp:
  "\<exists>a b. k = a @ strip k @ b \<and> list_all isspace a \<and> list_all isspace b"
proof -
  let ?ys = "dropWhile isspace k"
  let ?a = "takeWhile isspace k"
  let ?b = "rev (takeWhile isspace (rev ?ys))"
  have "?ys = rev (takeWhile isspace (rev ?ys) @ dropWhile isspace (rev ?ys))"
    by (simp only: takeWhile_dropWhile_id rev_rev_ident)
  then have ys: "?ys = strip k @ ?b" by (simp only: rev_append strip_def)
  have "k = ?a @ ?ys" by simp
  then have "k = ?a @ strip k @ ?b" using ys by simp
  moreover have "list_all isspace ?a" "list_all isspace ?b"
    by (auto simp add: list_all_iff dest: set_takeWhileD)
  ultimately show ?thesis by blast
qed

lemma strip_ends:
  assumes "strip k \<noteq> []"
  shows "\<not> isspace (hd (strip k))" and "\<not> isspace (last (strip k))"
proof -
  let ?ys = "dropWhile isspace k"
  let ?zs = "dropWhile isspace (rev ?ys)"
  have z: "?zs \<noteq> []" using assms by (simp add: strip_def)
  have "last (strip k) = hd ?zs" using z by (simp add: strip_def last_rev)
  then show "\<not> isspace (last (strip k))" using z hd_dropWhile [of isspace "rev ?ys"] by simp
  have y: "?ys \<noteq> []"
  proof
    assume e: "?ys = []"
    have "?zs = []" unfolding e by simp
    with z show False by simp
  qed
  have "?zs = drop (length (takeWhile isspace (rev ?ys))) (rev ?ys)"
    by (rule dropWhile_eq_drop)
  then have "strip k = take (length ?ys - length (takeWhile isspace (rev ?ys))) ?ys"
    by (simp add: strip_def rev_drop)
  then have "hd (strip k) = hd ?ys" using assms by (metis hd_take take_eq_Nil gr0I)
  then show "\<not> isspace (hd (strip k))" using y hd_dropWhile [of isspace k] by simp
qed

lemma parse_keywords_filter_map:
  "parse_keywords inp = filter (\<lambda>w. w \<noteq> []) (map strip (split comma inp))"
  by (simp add: parse_keywords_def filter_map comp_def)

lemma parse_keywords_trimmed:
  "w \<in> set (parse_keywords inp) \<Longrightarrow> w \<noteq> [] \<and> \<not> isspace (hd w) \<and> \<not> isspace (last w)"
  by (auto simp add: parse_keywords_filter_map strip_ends)

lemma parse_keywords_example:
  "parse_keywords (ascii ''a, b ,, c'') = [ascii ''a'', ascii ''b'', ascii ''c'']"
  by (simp add: parse_keywords_def ascii_def comma_def strip_def isspace_def)

lemma set_update_subset: "set (AList.update k v al) \<subseteq> insert (k, v) (set al)"
  by (induction al) auto

lemma edit_loop_values:
  assumes "(field, ws) \<in> set (edit_loop env d acc)"
  shows "(field, ws) \<in> set acc \<or> (\<exists>inp. ws = parse_keywords inp)"
  using assms
proof (induction d arbitrary: acc)
  case Nil
  then show ?case by simp
next
  case (Cons p d)
  obtain f kws where p: "p = (f, kws)" by (cases p)
  let ?v = "parse_keywords (edit_area env f (join (ascii '', '') kws))"
  have "(field, ws) \<in> set (AList.update f ?v acc) \<or> (\<exists>inp. ws = parse_keywords inp)"
    using Cons.IH [of "AList.update f ?v acc"] Cons.prems p by (simp add: Let_def)
  then show ?case using set_update_subset [of f ?v acc] by auto
qed


lemma edit_loop_other:
  "field \<notin> fst ` set d \<Longrightarrow> map_of (edit_loop env d acc) field = map_of acc field"
  by (induction d arbitrary: acc) (auto simp add: Let_def update_conv')

lemma edit_loop_lookup:
  assumes "distinct (map fst d)" and "(field, kws) \<in> set d"
  shows "map_of (edit_loop env d acc) field =
         Some (parse_keywords (edit_area env field (join (ascii '', '') kws)))"
  using assms
proof (induction d arbitrary: acc)
  case Nil
  then show ?case by simp
next
  case (Cons p d)
  obtain f ks where p: "p = (f, ks)" by (cases p)
  show ?case
  proof (cases "(field, kws) = p")
    case True
    then have "field \<notin> fst ` set d" using Cons.prems(1) p by auto
    then show ?thesis using True p by (simp add: Let_def edit_loop_other update_conv')
  next
    case False
    then have "(field, kws) \<in> set d" using Cons.prems(2) by simp
    then show ?thesis using Cons.IH Cons.prems(1) p by (simp add: Let_def)
  qed
qed

lemma edit_loop_order:
  "distinct (map fst d) \<Longrightarrow> set (map fst d) \<inter> set (map fst acc) = {} \<Longrightarrow>
   map fst (edit_loop env d acc) = map fst acc @ map fst d"
proof (induction d arbitrary: acc)
  case Nil
  then show ?case by simp
next
  case (Cons p d)
  obtain f ks where p: "p = (f, ks)" by (cases p)
  let ?acc = "AList.update f (parse_keywords (edit_area env f (join (ascii '', '') ks))) acc"
  have k: "map fst ?acc = map fst acc @ [f]" using Cons.prems(2) p by (simp add: update_keys)
  have "map fst (edit_loop env d ?acc) = map fst ?acc @ map fst d"
    using Cons.prems p k by (intro Cons.IH) auto
  then show ?case using p k by (simp add: Let_def)
qed

lemma edit_action_saves:
  "edit_button env \<Longrightarrow> save_button env \<Longrightarrow> seed_keywords s = Some (Val d) \<Longrightarrow>
   raised (edit_action env s) = None \<and>
   feedback (sess (edit_action env s)) = Some (Val (Edit (edit_loop env d [])))"
  by (simp add: edit_action_def Let_def)

lemma edit_env_loop:
  "edit_loop edit_env example_seed_keywords [] =
     [(ascii ''problem_purpose'', [ascii ''a'', ascii ''b'', ascii ''c'']),
      (ascii ''object_system'', [ascii ''filter'', ascii ''membrane'']),
      (ascii ''environment_field'', [ascii ''home'', ascii ''residential''])]"
  by (simp add: edit_env_def idle_env_def example_seed_keywords_def parse_keywords_def
      ascii_def comma_def strip_def isspace_def)

section \<open>Missing categories\<close>





section \<open>A run that shows the feedback section\<close>

lemma displays_ok:
  "has_categories cm \<Longrightarrow> raised (display_concept_matrix cm s) = None"
  "has_categories sk \<Longrightarrow> raised (display_seed_keywords sk s) = None"
  by (auto simp add: has_categories_def required_categories_def display_concept_matrix_def
      display_seed_keywords_def run_blocks_Cons_raised write_item_def write_bullets_def
      split: option.split)

lemma actions_raised [simp]:
  "raised (approve_action env s) = None" "raised (reject_action env s) = None"
  by (simp_all add: approve_action_def reject_action_def)

lemma edit_action_idle: "\<not> edit_button env \<Longrightarrow> edit_action env s = ok s [Button ''Edit Keywords'']"
  by (simp add: edit_action_def)

lemma feedback_section_shown:
  assumes "concept_matrix s = Some (Val cm)" and "seed_keywords s = Some (Val sk)"
    and "has_categories cm" and "has_categories sk" and "\<not> edit_button env"
  shows "sess (feedback_section env s) = sess (reject_action env (sess (approve_action env s)))"
  using assms
  by (simp add: feedback_section_def run_blocks_Cons_sess displays_ok edit_action_idle)

lemma main_shown:
  assumes "initialised s" and "\<not> (start_button env \<and> input_text env \<noteq> [])"
    and "concept_matrix s = Some (Val cm)" and "seed_keywords s = Some (Val sk)"
    and "has_categories cm" and "has_categories sk" and "\<not> edit_button env"
  shows "sess (main env s) = sess (reject_action env (sess (approve_action env s)))"
proof -
  have "sess (main env s) = sess (feedback_section env s)"
    using assms(1,2)
    by (simp add: main_sess init_session_state_initialised run_blocks_Cons_sess
        input_section_def start_analysis_skip split: option.split)
  then show ?thesis using feedback_section_shown [OF assms(3-7)] by simp
qed

lemma main_approve_only:
  assumes "initialised s" and "concept_matrix s = Some (Val cm)"
    and "seed_keywords s = Some (Val sk)" and "has_categories cm" and "has_categories sk"
    and "approve_button env" and "\<not> start_button env" and "\<not> reject_button env"
    and "\<not> edit_button env"
  shows "sess (main env s) = s\<lparr>keywords_approved := Some True, feedback := Some (Val Approve)\<rparr>"
  using main_shown [of s env cm sk] assms
  by (simp add: approve_action_sess reject_action_sess)

lemma runs_approve_only:
  assumes "initialised s" and "concept_matrix s = Some (Val cm)"
    and "seed_keywords s = Some (Val sk)" and "has_categories cm" and "has_categories sk"
    and "approve_button env" and "\<not> start_button env" and "\<not> reject_button env"
    and "\<not> edit_button env"
  shows "runs (replicate (Suc n) env) s =
         s\<lparr>keywords_approved := Some True, feedback := Some (Val Approve)\<rparr>"
  using assms(1-3)
proof (induction n arbitrary: s)
  case 0
  then show ?case using main_approve_only [of s cm sk env] assms(4-9) by simp
next
  case (Suc n)
  let ?s = "s\<lparr>keywords_approved := Some True, feedback := Some (Val Approve)\<rparr>"
  have m: "sess (main env s) = ?s"
    using main_approve_only [of s cm sk env] Suc.prems assms(4-9) by simp
  have "runs (replicate (Suc n) env) ?s =
        ?s\<lparr>keywords_approved := Some True, feedback := Some (Val Approve)\<rparr>"
    using Suc.prems by (intro Suc.IH) (simp_all add: initialised_def)
  then show ?case using m by simp
qed

section \<open>Runs that end in an exception\<close>

lemma main_trace:
  "trace (main env s) =
     (case raised (init_session_state env s) of
        Some e \<Rightarrow> [Page_config]
      | None \<Rightarrow> Page_config # trace (run_blocks [input_section, start_analysis env,
                    feedback_section env, display_final_results] (sess (init_session_state env s))))"
  by (simp add: main_def run_blocks_Cons_trace page_config_def split: option.split)

lemma start_analysis_failure:
  assumes "start_button env" and "input_text env \<noteq> []"
    and "extract_keywords env (input_text env) = Inl e" and "extractor s \<noteq> None"
  shows "start_analysis env s =
           failed e s [Spinner ''Analyzing your patent idea...'',
                       Call_extract_keywords (input_text env)]"
  using assms by (auto simp add: start_analysis_def)

lemma start_analysis_feedback [simp]:
  "feedback (sess (start_analysis env s)) = feedback s"
  by (simp add: start_analysis_def split: option.split sum.split)




lemma display_no_button [simp]:
  "Button b \<notin> set (trace (display_concept_matrix cm s))"
  "Button b \<notin> set (trace (display_seed_keywords sk s))"
  unfolding display_concept_matrix_def display_seed_keywords_def
  by (rule run_blocks_no_event; auto simp add: write_item_def write_bullets_def
      split: option.splits)+

lemma display_final_results_no_button [simp]:
  "Button b \<notin> set (trace (display_final_results s))"
  by (auto simp add: display_final_results_def display_result_def
      split: option.splits nullable.splits bool.splits if_splits)





lemma main_extraction_failure:
  assumes "start_button env" and "input_text env \<noteq> []"
    and "extract_keywords env (input_text env) = Inl e"
    and "raised (init_session_state env s) = None"
  shows "raised (main env s) = Some e"
    and "trace (main env s) =
           [Page_config, Title ''Patent Search Assistant'', Markdown_rule,
            Expander ''Enter Patent Idea'', Text_area ''Describe your patent idea'',
            Button ''Start Analysis'', Spinner ''Analyzing your patent idea...'',
            Call_extract_keywords (input_text env)]"
    and "sess (main env s) = sess (init_session_state env s)"
proof -
  let ?s1 = "sess (init_session_state env s)"
  have x: "extractor ?s1 \<noteq> None" using assms(4) by (rule init_session_state_extractor)
  note f1 = start_analysis_failure [OF assms(1,2,3) x]
  show "raised (main env s) = Some e"
    using assms(4) by (simp add: main_raised run_blocks_Cons_raised input_section_def f1)
  show "sess (main env s) = ?s1"
    using assms(4) by (simp add: main_sess run_blocks_Cons_sess input_section_def f1)
  show "trace (main env s) =
           [Page_config, Title ''Patent Search Assistant'', Markdown_rule,
            Expander ''Enter Patent Idea'', Text_area ''Describe your patent idea'',
            Button ''Start Analysis'', Spinner ''Analyzing your patent idea...'',
            Call_extract_keywords (input_text env)]"
    using assms(4) by (simp add: main_trace run_blocks_Cons_trace input_section_def f1)
qed

lemma failing_env_facts:
  "start_button failing_env" "input_text failing_env = ascii ''idea''"
  "input_text failing_env \<noteq> []"
  "extract_keywords failing_env (input_text failing_env) =
     Inl (CollaboratorError (ascii ''timeout''))"
  "raised (init_session_state failing_env approved_session) = None"
  "initialised approved_session"
  by (simp_all add: failing_env_def idle_env_def ascii_def initialised_def approved_session_def
      analysed_session_def init_session_state_def)





section \<open>The claims\<close>

text \<open>
  C7. Approve is idempotent: when the Approve button is clicked, running lines 110 to 113
  any number of times \<open>n \<ge> 1\<close> gives the session a single run gives, with
  \<open>keywords_approved\<close> true and \<open>feedback\<close> the approve action, and raises nothing.
  The same holds for whole runs of the page in which only Approve is clicked, from a session
  that shows the feedback section: \<open>n\<close> such runs leave the session one run leaves.
\<close>

theorem approve_idempotent:
  assumes "approve_button env" and "1 \<le> n"
  shows "((\<lambda>t. sess (approve_action env t)) ^^ n) s = sess (approve_action env s) \<and>
         keywords_approved (((\<lambda>t. sess (approve_action env t)) ^^ n) s) = Some True \<and>
         feedback (((\<lambda>t. sess (approve_action env t)) ^^ n) s) = Some (Val Approve) \<and>
         raised (approve_action env s) = None \<and>
         (initialised s \<longrightarrow> concept_matrix s = Some (Val cm) \<longrightarrow>
          seed_keywords s = Some (Val sk) \<longrightarrow> has_categories cm \<longrightarrow> has_categories sk \<longrightarrow>
          \<not> start_button env \<longrightarrow> \<not> reject_button env \<longrightarrow> \<not> edit_button env \<longrightarrow>
            runs (replicate n env) s = sess (main env s) \<and>
            keywords_approved (runs (replicate n env) s) = Some True \<and>
            feedback (runs (replicate n env) s) = Some (Val Approve))"
proof -
  have twice: "sess (approve_action env (sess (approve_action env t))) = sess (approve_action env t)"
    for t using assms(1) by (simp add: approve_action_sess)
  have "((\<lambda>t. sess (approve_action env t)) ^^ Suc m) s = sess (approve_action env s)" for m
    by (induction m) (simp_all add: twice)
  moreover obtain m where m: "n = Suc m" using assms(2) by (cases n) simp_all
  ultimately have blk: "((\<lambda>t. sess (approve_action env t)) ^^ n) s = sess (approve_action env s)"
    by simp
  have page: "runs (replicate n env) s = sess (main env s) \<and>
      keywords_approved (runs (replicate n env) s) = Some True \<and>
      feedback (runs (replicate n env) s) = Some (Val Approve)"
    if "initialised s" "concept_matrix s = Some (Val cm)" "seed_keywords s = Some (Val sk)"
      "has_categories cm" "has_categories sk" "\<not> start_button env" "\<not> reject_button env"
      "\<not> edit_button env"
    using runs_approve_only [OF that(1-5) assms(1) that(6-8), of m]
      main_approve_only [OF that(1-5) assms(1) that(6-8)] m
    by simp
  have pg: "initialised s \<longrightarrow> concept_matrix s = Some (Val cm) \<longrightarrow>
      seed_keywords s = Some (Val sk) \<longrightarrow> has_categories cm \<longrightarrow> has_categories sk \<longrightarrow>
      \<not> start_button env \<longrightarrow> \<not> reject_button env \<longrightarrow> \<not> edit_button env \<longrightarrow>
        runs (replicate n env) s = sess (main env s) \<and>
        keywords_approved (runs (replicate n env) s) = Some True \<and>
        feedback (runs (replicate n env) s) = Some (Val Approve)"
    using page by blast
  have b2: "keywords_approved (((\<lambda>t. sess (approve_action env t)) ^^ n) s) = Some True"
    and b3: "feedback (((\<lambda>t. sess (approve_action env t)) ^^ n) s) = Some (Val Approve)"
    unfolding blk using assms(1) by (simp_all add: approve_action_sess)
  have b4: "raised (approve_action env s) = None" by simp
  show ?thesis
    by (intro conjI) (rule blk b2 b3 b4 pg)+
qed

theorem approve_idempotent_witness:
  "approve_button (idle_env\<lparr>approve_button := True\<rparr>) \<and> (1::nat) \<le> 3 \<and>
   ((\<lambda>t. sess (approve_action (idle_env\<lparr>approve_button := True\<rparr>) t)) ^^ 3) analysed_session =
     approved_session \<and>
   initialised analysed_session \<and>
   has_categories example_seed_keywords \<and>
   runs (replicate 3 (idle_env\<lparr>approve_button := True\<rparr>)) analysed_session =
     sess (main (idle_env\<lparr>approve_button := True\<rparr>) analysed_session) \<and>
   keywords_approved (runs (replicate 3 (idle_env\<lparr>approve_button := True\<rparr>)) analysed_session) =
     Some True \<and>
   feedback (runs (replicate 3 (idle_env\<lparr>approve_button := True\<rparr>)) analysed_session) =
     Some (Val Approve)"
proof -
  let ?env = "idle_env\<lparr>approve_button := True\<rparr>"
  have b: "approve_button ?env" "\<not> start_button ?env" "\<not> reject_button ?env"
    "\<not> edit_button ?env"
    by (simp_all add: idle_env_def)
  have n: "(1::nat) \<le> 3" by simp
  have i: "initialised analysed_session"
    by (simp add: initialised_def analysed_session_def)
  obtain cm where c: "concept_matrix analysed_session = Some (Val cm)"
    and hc: "has_categories cm"
    by (simp add: analysed_session_def example_results_def has_categories_def
        required_categories_def ascii_def)
  have k: "seed_keywords analysed_session = Some (Val example_seed_keywords)"
    by (simp add: analysed_session_def example_results_def)
  have hk: "has_categories example_seed_keywords"
    by (simp add: has_categories_def required_categories_def example_seed_keywords_def ascii_def)
  note t = approve_idempotent [OF b(1) n, of analysed_session cm example_seed_keywords]
  have t1: "((\<lambda>t. sess (approve_action ?env t)) ^^ 3) analysed_session = approved_session"
    using t [THEN conjunct1] b(1) by (simp add: approve_action_sess approved_session_def)
  note t5 = t [THEN conjunct2, THEN conjunct2, THEN conjunct2, THEN conjunct2, rule_format,
      OF i c k hc hk b(2) b(3) b(4)]
  show ?thesis
    by (intro conjI) (rule b(1) n t1 i hk t5 [THEN conjunct1] t5 [THEN conjunct2, THEN conjunct1]
        t5 [THEN conjunct2, THEN conjunct2])+
qed

text \<open>
  C8. \<open>keywords_approved\<close> never becomes true except through Approve: a run of the script
  in which the Approve button is not clicked (whatever else is clicked: Start Analysis,
  Reject, Submit, Edit, Save) does not make it true, nor does any sequence of such runs, and
  from the empty session such runs never reach a session in which it is true.
\<close>

theorem approved_only_by_approve:
  "(\<not> approve_button env \<longrightarrow> keywords_approved s \<noteq> Some True \<longrightarrow>
      keywords_approved (sess (main env s)) \<noteq> Some True) \<and>
   ((\<forall>env\<in>set envs. \<not> approve_button env) \<longrightarrow> keywords_approved s \<noteq> Some True \<longrightarrow>
      keywords_approved (runs envs s) \<noteq> Some True) \<and>
   ((\<forall>env\<in>set envs. \<not> approve_button env) \<longrightarrow>
      keywords_approved (runs envs empty_session) \<noteq> Some True)"
proof (intro conjI impI)
  assume "\<not> approve_button env" and "keywords_approved s \<noteq> Some True"
  then show "keywords_approved (sess (main env s)) \<noteq> Some True"
    by (simp add: main_approved init_session_state_not_approved)
next
  assume "\<forall>env\<in>set envs. \<not> approve_button env" and "keywords_approved s \<noteq> Some True"
  then show "keywords_approved (runs envs s) \<noteq> Some True" by (rule runs_not_approved)
next
  assume "\<forall>env\<in>set envs. \<not> approve_button env"
  then show "keywords_approved (runs envs empty_session) \<noteq> Some True"
    by (rule runs_not_approved) (simp add: empty_session_def)
qed

theorem approved_only_by_approve_witness:
  "\<not> approve_button (idle_env\<lparr>start_button := True, input_text := ascii ''idea''\<rparr>) \<and>
   \<not> approve_button (idle_env\<lparr>reject_button := True, submit_feedback_button := True\<rparr>) \<and>
   \<not> approve_button (idle_env\<lparr>edit_button := True, save_button := True\<rparr>) \<and>
   keywords_approved analysed_session \<noteq> Some True \<and>
   keywords_approved (sess (main (idle_env\<lparr>edit_button := True, save_button := True\<rparr>)
      analysed_session)) \<noteq> Some True \<and>
   keywords_approved (runs [idle_env\<lparr>start_button := True, input_text := ascii ''idea''\<rparr>,
       idle_env\<lparr>reject_button := True, submit_feedback_button := True\<rparr>,
       idle_env\<lparr>edit_button := True, save_button := True\<rparr>] analysed_session) \<noteq> Some True \<and>
   keywords_approved (runs [idle_env\<lparr>start_button := True, input_text := ascii ''idea''\<rparr>,
       idle_env\<lparr>reject_button := True, submit_feedback_button := True\<rparr>,
       idle_env\<lparr>edit_button := True, save_button := True\<rparr>] empty_session) \<noteq> Some True"
  using approved_only_by_approve [of "idle_env\<lparr>edit_button := True, save_button := True\<rparr>"
      analysed_session
      "[idle_env\<lparr>start_button := True, input_text := ascii ''idea''\<rparr>,
        idle_env\<lparr>reject_button := True, submit_feedback_button := True\<rparr>,
        idle_env\<lparr>edit_button := True, save_button := True\<rparr>]"]
  by (simp add: idle_env_def analysed_session_def del: runs.simps)

text \<open>
  C9. Reject with Submit sets \<open>feedback\<close> to the reject action carrying the feedback text
  and changes nothing else: lines 116 to 123 return the session with only \<open>feedback\<close>
  replaced and call no extractor; in a whole run where Reject and Submit are clicked
  (not Start Analysis, not Approve), \<open>keywords_approved\<close>, \<open>concept_matrix\<close>,
  \<open>seed_keywords\<close> and \<open>current_state\<close> are as \<open>init_session_state\<close> left them and
  \<open>extract_keywords\<close> is not called; and from a session that shows the feedback section
  such a run returns the session with only \<open>feedback\<close> replaced.
\<close>

theorem reject_only_records_feedback:
  assumes "reject_button env" and "submit_feedback_button env"
    and "\<not> start_button env" and "\<not> approve_button env"
  shows "raised (reject_action env s) = None \<and>
         sess (reject_action env s) = s\<lparr>feedback := Some (Val (Reject (reject_feedback env)))\<rparr> \<and>
         keywords_approved (sess (reject_action env s)) = keywords_approved s \<and>
         concept_matrix (sess (reject_action env s)) = concept_matrix s \<and>
         seed_keywords (sess (reject_action env s)) = seed_keywords s \<and>
         current_state (sess (reject_action env s)) = current_state s \<and>
         (\<forall>t. Call_extract_keywords t \<notin> set (trace (reject_action env s))) \<and>
         keywords_approved (sess (main env s)) = keywords_approved (sess (init_session_state env s)) \<and>
         concept_matrix (sess (main env s)) = concept_matrix (sess (init_session_state env s)) \<and>
         seed_keywords (sess (main env s)) = seed_keywords (sess (init_session_state env s)) \<and>
         current_state (sess (main env s)) = current_state (sess (init_session_state env s)) \<and>
         (\<forall>t. Call_extract_keywords t \<notin> set (trace (main env s))) \<and>
         (initialised s \<longrightarrow> concept_matrix s = Some (Val cm) \<longrightarrow>
          seed_keywords s = Some (Val sk) \<longrightarrow> has_categories cm \<longrightarrow> has_categories sk \<longrightarrow>
          \<not> edit_button env \<longrightarrow>
            sess (main env s) = s\<lparr>feedback := Some (Val (Reject (reject_feedback env)))\<rparr>)"
proof -
  have page: "sess (main env s) = s\<lparr>feedback := Some (Val (Reject (reject_feedback env)))\<rparr>"
    if "initialised s" "concept_matrix s = Some (Val cm)" "seed_keywords s = Some (Val sk)"
      "has_categories cm" "has_categories sk" "\<not> edit_button env"
    using main_shown [of s env cm sk] that assms
    by (simp add: approve_action_sess reject_action_sess)
  have pg: "initialised s \<longrightarrow> concept_matrix s = Some (Val cm) \<longrightarrow>
      seed_keywords s = Some (Val sk) \<longrightarrow> has_categories cm \<longrightarrow> has_categories sk \<longrightarrow>
      \<not> edit_button env \<longrightarrow>
        sess (main env s) = s\<lparr>feedback := Some (Val (Reject (reject_feedback env)))\<rparr>"
    using page by blast
  have rest: "raised (reject_action env s) = None \<and>
         sess (reject_action env s) = s\<lparr>feedback := Some (Val (Reject (reject_feedback env)))\<rparr> \<and>
         keywords_approved (sess (reject_action env s)) = keywords_approved s \<and>
         concept_matrix (sess (reject_action env s)) = concept_matrix s \<and>
         seed_keywords (sess (reject_action env s)) = seed_keywords s \<and>
         current_state (sess (reject_action env s)) = current_state s \<and>
         (\<forall>t. Call_extract_keywords t \<notin> set (trace (reject_action env s))) \<and>
         keywords_approved (sess (main env s)) = keywords_approved (sess (init_session_state env s)) \<and>
         concept_matrix (sess (main env s)) = concept_matrix (sess (init_session_state env s)) \<and>
         seed_keywords (sess (main env s)) = seed_keywords (sess (init_session_state env s)) \<and>
         current_state (sess (main env s)) = current_state (sess (init_session_state env s)) \<and>
         (\<forall>t. Call_extract_keywords t \<notin> set (trace (main env s)))"
    using assms
    by (simp add: reject_action_sess main_approved main_frame_no_start main_no_call)
  show ?thesis
    using rest pg by blast
qed

theorem reject_only_records_feedback_witness:
  "reject_button (idle_env\<lparr>reject_button := True, submit_feedback_button := True,
      reject_feedback := ascii ''too broad''\<rparr>) \<and>
   submit_feedback_button (idle_env\<lparr>reject_button := True, submit_feedback_button := True,
      reject_feedback := ascii ''too broad''\<rparr>) \<and>
   initialised approved_session \<and>
   has_categories example_seed_keywords \<and>
   sess (reject_action (idle_env\<lparr>reject_button := True, submit_feedback_button := True,
      reject_feedback := ascii ''too broad''\<rparr>) approved_session) =
     approved_session\<lparr>feedback := Some (Val (Reject (ascii ''too broad'')))\<rparr> \<and>
   sess (main (idle_env\<lparr>reject_button := True, submit_feedback_button := True,
      reject_feedback := ascii ''too broad''\<rparr>) approved_session) =
     approved_session\<lparr>feedback := Some (Val (Reject (ascii ''too broad'')))\<rparr> \<and>
   keywords_approved (approved_session\<lparr>feedback := Some (Val (Reject (ascii ''too broad'')))\<rparr>) =
     Some True"
proof -
  let ?env = "idle_env\<lparr>reject_button := True, submit_feedback_button := True,
      reject_feedback := ascii ''too broad''\<rparr>"
  have b: "reject_button ?env" "submit_feedback_button ?env" "\<not> start_button ?env"
    "\<not> approve_button ?env" "\<not> edit_button ?env"
    by (simp_all add: idle_env_def)
  have f: "reject_feedback ?env = ascii ''too broad''" by simp
  have i: "initialised approved_session"
    by (simp add: initialised_def approved_session_def analysed_session_def)
  obtain cm where c: "concept_matrix approved_session = Some (Val cm)"
    and hc: "has_categories cm"
    by (simp add: approved_session_def analysed_session_def example_results_def
        has_categories_def required_categories_def ascii_def)
  have k: "seed_keywords approved_session = Some (Val example_seed_keywords)"
    by (simp add: approved_session_def analysed_session_def example_results_def)
  have hk: "has_categories example_seed_keywords"
    by (simp add: has_categories_def required_categories_def example_seed_keywords_def ascii_def)
  have a: "keywords_approved (approved_session\<lparr>feedback :=
      Some (Val (Reject (ascii ''too broad'')))\<rparr>) = Some True"
    by (simp add: approved_session_def)
  note t = reject_only_records_feedback [OF b(1) b(2) b(3) b(4),
      of approved_session cm example_seed_keywords]
  note t2 = t [THEN conjunct2, THEN conjunct1, unfolded f]
  note t13 = t [THEN conjunct2, THEN conjunct2, THEN conjunct2, THEN conjunct2, THEN conjunct2,
      THEN conjunct2, THEN conjunct2, THEN conjunct2, THEN conjunct2, THEN conjunct2,
      THEN conjunct2, THEN conjunct2, rule_format, OF i c k hc hk b(5), unfolded f]
  show ?thesis
    by (intro conjI) (rule b(1) b(2) i hk t2 t13 a)+
qed

text \<open>
  C1. With a non-empty text, Start Analysis followed by a successful extractor answer (one
  that carries a concept matrix and seed keywords, as the collaborator's contract says) leaves
  both \<open>concept_matrix\<close> and \<open>seed_keywords\<close> populated at the end of the run; and in
  every session reached from the empty session by runs whose extractor keeps that contract,
  the two keys are both present or both absent and both populated or both not.
\<close>

theorem analysis_populates_both:
  "(start_button env \<longrightarrow> input_text env \<noteq> [] \<longrightarrow> raised (init_session_state env s) = None \<longrightarrow>
      (\<forall>r cm sk. extract_keywords env (input_text env) = Inr r \<longrightarrow>
         get_concept_matrix r = Val cm \<longrightarrow> get_seed_keywords r = Val sk \<longrightarrow>
         concept_matrix (sess (main env s)) = Some (Val cm) \<and>
         seed_keywords (sess (main env s)) = Some (Val sk))) \<and>
   ((\<forall>env\<in>set envs. extractor_contract (extract_keywords env)) \<longrightarrow>
      both_or_neither (runs envs empty_session))"
proof (intro conjI impI allI)
  fix r cm sk
  assume a: "start_button env" "input_text env \<noteq> []" "raised (init_session_state env s) = None"
    "extract_keywords env (input_text env) = Inr r"
    "get_concept_matrix r = Val cm" "get_seed_keywords r = Val sk"
  let ?s1 = "sess (init_session_state env s)"
  obtain x where x: "extractor ?s1 = Some x"
    using init_session_state_extractor [OF a(3)] by blast
  have "sess (start_analysis env ?s1) =
      ?s1\<lparr>current_state := Some (Val r), concept_matrix := Some (Val cm),
          seed_keywords := Some (Val sk)\<rparr>"
    using a x by (simp add: start_analysis_def)
  then show "concept_matrix (sess (main env s)) = Some (Val cm)"
    and "seed_keywords (sess (main env s)) = Some (Val sk)"
    using a(3) by (simp_all add: main_sess main_fields_after_start)
next
  assume "\<forall>env\<in>set envs. extractor_contract (extract_keywords env)"
  then show "both_or_neither (runs envs empty_session)"
    by (rule runs_both_or_neither) (simp add: both_or_neither_def empty_session_def)
qed

theorem analysis_populates_both_witness:
  "start_button (idle_env\<lparr>start_button := True, input_text := ascii ''water filter''\<rparr>) \<and>
   input_text (idle_env\<lparr>start_button := True, input_text := ascii ''water filter''\<rparr>) \<noteq> [] \<and>
   raised (init_session_state (idle_env\<lparr>start_button := True,
     input_text := ascii ''water filter''\<rparr>) empty_session) = None \<and>
   extractor_contract (extract_keywords (idle_env\<lparr>start_button := True,
     input_text := ascii ''water filter''\<rparr>)) \<and>
   concept_matrix (sess (main (idle_env\<lparr>start_button := True,
     input_text := ascii ''water filter''\<rparr>) empty_session)) =
     Some (get_concept_matrix example_results) \<and>
   seed_keywords (sess (main (idle_env\<lparr>start_button := True,
     input_text := ascii ''water filter''\<rparr>) empty_session)) =
     Some (get_seed_keywords example_results) \<and>
   both_or_neither (runs [idle_env\<lparr>start_button := True,
     input_text := ascii ''water filter''\<rparr>, idle_env\<lparr>approve_button := True\<rparr>] empty_session)"
  using analysis_populates_both [of
      "idle_env\<lparr>start_button := True, input_text := ascii ''water filter''\<rparr>" empty_session
      "[idle_env\<lparr>start_button := True, input_text := ascii ''water filter''\<rparr>,
        idle_env\<lparr>approve_button := True\<rparr>]"]
  by (simp add: idle_env_def ascii_def example_results_def extractor_contract_def
      empty_session_def init_session_state_def del: runs.simps)

text \<open>
  C5, as the code has it. The guard of line 89 is the truth value of the text, so only the
  empty text is turned away: then lines 90 to 96 do nothing, \<open>extract_keywords\<close> is not
  called in the run and \<open>current_state\<close>, \<open>concept_matrix\<close> and \<open>seed_keywords\<close> stay as
  \<open>init_session_state\<close> left them. Any non-empty text, also one of white space only, is
  passed to \<open>extract_keywords\<close> when Start Analysis is clicked.
\<close>

theorem start_analysis_skips_empty_input:
  "(input_text env = [] \<longrightarrow>
      start_analysis env s = ok s [] \<and>
      (\<forall>t. Call_extract_keywords t \<notin> set (trace (main env s))) \<and>
      current_state (sess (main env s)) = current_state (sess (init_session_state env s)) \<and>
      concept_matrix (sess (main env s)) = concept_matrix (sess (init_session_state env s)) \<and>
      seed_keywords (sess (main env s)) = seed_keywords (sess (init_session_state env s))) \<and>
   (start_button env \<longrightarrow> input_text env \<noteq> [] \<longrightarrow> extractor s \<noteq> None \<longrightarrow>
      Call_extract_keywords (input_text env) \<in> set (trace (start_analysis env s)))"
  by (simp add: start_analysis_skip main_no_call main_frame_no_start start_analysis_calls)

theorem start_analysis_skips_empty_input_witness:
  "input_text (idle_env\<lparr>start_button := True\<rparr>) = [] \<and>
   start_button (idle_env\<lparr>start_button := True\<rparr>) \<and>
   start_analysis (idle_env\<lparr>start_button := True\<rparr>) approved_session = ok approved_session [] \<and>
   concept_matrix (sess (main (idle_env\<lparr>start_button := True\<rparr>) approved_session)) =
     concept_matrix approved_session \<and>
   input_text (idle_env\<lparr>start_button := True, input_text := ascii ''idea''\<rparr>) \<noteq> [] \<and>
   extractor approved_session \<noteq> None \<and>
   Call_extract_keywords (ascii ''idea'') \<in>
     set (trace (start_analysis (idle_env\<lparr>start_button := True, input_text := ascii ''idea''\<rparr>)
       approved_session))"
  using start_analysis_skips_empty_input [of "idle_env\<lparr>start_button := True\<rparr>" approved_session]
    start_analysis_skips_empty_input [of
      "idle_env\<lparr>start_button := True, input_text := ascii ''idea''\<rparr>" approved_session]
  by (simp add: idle_env_def ascii_def approved_session_def analysed_session_def
      init_session_state_def init_defaults_eq)

text \<open>
  The claim C5 as stated fails for a text of one space: the extractor is called with it and
  \<open>concept_matrix\<close> changes from \<open>None\<close> to the extractor's answer.
\<close>

theorem start_analysis_whitespace_counterexample:
  "list_all isspace (input_text (idle_env\<lparr>start_button := True, input_text := ascii '' ''\<rparr>)) \<and>
   Call_extract_keywords (ascii '' '') \<in>
     set (trace (main (idle_env\<lparr>start_button := True, input_text := ascii '' ''\<rparr>) empty_session)) \<and>
   concept_matrix (sess (init_session_state
     (idle_env\<lparr>start_button := True, input_text := ascii '' ''\<rparr>) empty_session)) = Some PyNone \<and>
   concept_matrix (sess (main (idle_env\<lparr>start_button := True, input_text := ascii '' ''\<rparr>)
     empty_session)) = Some (get_concept_matrix example_results)"
proof -
  let ?env = "idle_env\<lparr>start_button := True, input_text := ascii '' ''\<rparr>"
  let ?s1 = "sess (init_session_state ?env empty_session)"
  have i: "raised (init_session_state ?env empty_session) = None"
    by (simp add: idle_env_def empty_session_def init_session_state_def)
  have x: "extractor ?s1 \<noteq> None" using i by (rule init_session_state_extractor)
  have w: "list_all isspace (input_text ?env)" by (simp add: ascii_def isspace_def)
  have c: "Call_extract_keywords (ascii '' '') \<in> set (trace (start_analysis ?env ?s1))"
    using start_analysis_calls [of ?env ?s1] x by (simp add: ascii_def)
  have b: "concept_matrix ?s1 = Some PyNone"
    by (simp add: idle_env_def empty_session_def init_session_state_def init_defaults_eq)
  have a: "concept_matrix (sess (start_analysis ?env ?s1)) = Some (get_concept_matrix example_results)"
    using x by (auto simp add: start_analysis_def idle_env_def ascii_def)
  show ?thesis
    using w main_trace_start [OF i c] b a by (simp add: main_fields_start [OF i])
qed

text \<open>
  C4, as the code has it. Lines 151 to 159 render nothing and raise nothing when
  \<open>keywords_approved\<close> is false, and when it is true and \<open>current_state\<close> is the
  extractor's answer without a non-empty \<open>final_url\<close> list. The remaining case,
  \<open>keywords_approved\<close> true with \<open>current_state\<close> \<open>None\<close>, is not guarded by the code; no
  sequence of runs from the empty session reaches it, since a session whose
  \<open>keywords_approved\<close> is true holds an extractor answer in \<open>current_state\<close>.
\<close>

theorem display_final_results_noop:
  "(keywords_approved s = Some False \<longrightarrow> display_final_results s = ok s []) \<and>
   (\<forall>r. keywords_approved s = Some True \<longrightarrow> current_state s = Some (Val r) \<longrightarrow>
      \<not> truthy_list (get_final_url r) \<longrightarrow> display_final_results s = ok s []) \<and>
   (keywords_approved (runs envs empty_session) = Some True \<longrightarrow>
      (\<exists>r. current_state (runs envs empty_session) = Some (Val r)))"
proof (intro conjI impI allI)
  assume "keywords_approved s = Some False"
  then show "display_final_results s = ok s []" by (simp add: display_final_results_def)
next
  fix r
  assume "keywords_approved s = Some True" "current_state s = Some (Val r)"
    "\<not> truthy_list (get_final_url r)"
  then show "display_final_results s = ok s []" by (simp add: display_final_results_def)
next
  assume a: "keywords_approved (runs envs empty_session) = Some True"
  have "results_known (runs envs empty_session)" by (rule runs_empty_results_known)
  with a show "\<exists>r. current_state (runs envs empty_session) = Some (Val r)"
    by (simp add: results_known_def populated_iff)
qed

theorem display_final_results_noop_witness:
  "keywords_approved analysed_session = Some False \<and>
   display_final_results analysed_session = ok analysed_session [] \<and>
   keywords_approved approved_session = Some True \<and>
   current_state approved_session = Some (Val example_results) \<and>
   \<not> truthy_list (get_final_url example_results) \<and>
   display_final_results approved_session = ok approved_session [] \<and>
   keywords_approved (runs [idle_env\<lparr>start_button := True, input_text := ascii ''idea''\<rparr>,
     idle_env\<lparr>approve_button := True\<rparr>] empty_session) = Some True \<and>
   current_state (runs [idle_env\<lparr>start_button := True, input_text := ascii ''idea''\<rparr>,
     idle_env\<lparr>approve_button := True\<rparr>] empty_session) = Some (Val example_results)"
proof -
  let ?e1 = "idle_env\<lparr>start_button := True, input_text := ascii ''idea''\<rparr>"
  let ?e2 = "idle_env\<lparr>approve_button := True\<rparr>"
  have r1: "sess (main ?e1 empty_session) = analysed_session"
    by (simp add: main_def run_blocks_Cons_sess run_blocks_Cons_raised page_config_def
        input_section_def init_session_state_def init_defaults_eq start_analysis_def
        feedback_section_def display_concept_matrix_def display_seed_keywords_def
        write_item_def write_bullets_def approve_action_def reject_action_def edit_action_def
        display_final_results_def idle_env_def empty_session_def analysed_session_def
        example_results_def example_seed_keywords_def ascii_def)
  have r2: "sess (main ?e2 analysed_session) = approved_session"
    by (simp add: main_def run_blocks_Cons_sess run_blocks_Cons_raised page_config_def
        input_section_def init_session_state_def init_defaults_eq start_analysis_def
        feedback_section_def display_concept_matrix_def display_seed_keywords_def
        write_item_def write_bullets_def approve_action_def reject_action_def edit_action_def
        display_final_results_def idle_env_def approved_session_def analysed_session_def
        example_results_def example_seed_keywords_def ascii_def)
  have rr: "runs [?e1, ?e2] empty_session = approved_session" by (simp add: r1 r2)
  have a0: "keywords_approved analysed_session = Some False"
    by (simp add: analysed_session_def)
  have a1: "keywords_approved approved_session = Some True"
    and a2: "current_state approved_session = Some (Val example_results)"
    by (simp_all add: approved_session_def analysed_session_def)
  have a3: "\<not> truthy_list (get_final_url example_results)"
    by (simp add: example_results_def)
  have n1: "display_final_results analysed_session = ok analysed_session []"
    using display_final_results_noop [of analysed_session "[?e1, ?e2]"] a0 by blast
  have n2: "display_final_results approved_session = ok approved_session []"
    using display_final_results_noop [of approved_session "[?e1, ?e2]"] a1 a2 a3 by blast
  show ?thesis
    unfolding rr using a0 a1 a2 a3 n1 n2 by blast
qed

text \<open>
  The claim C4 as stated fails on the session with \<open>keywords_approved\<close> true and
  \<open>current_state\<close> \<open>None\<close>: \<open>.get\<close> on \<open>None\<close> raises \<open>AttributeError\<close>.
\<close>

theorem display_final_results_counterexample:
  "keywords_approved (approved_session\<lparr>current_state := Some PyNone\<rparr>) = Some True \<and>
   current_state (approved_session\<lparr>current_state := Some PyNone\<rparr>) = Some PyNone \<and>
   raised (display_final_results (approved_session\<lparr>current_state := Some PyNone\<rparr>)) =
     Some AttributeError"
  by (simp add: approved_session_def analysed_session_def display_final_results_def)

text \<open>
  C6. For every category and every text, the edit form splits the text on commas (joining the
  tokens with commas gives the text back, and no token holds a comma), trims white space from
  each token (what \<open>strip\<close> removes on either side is white space, and what is left
  neither starts nor ends with white space), drops the tokens that are empty after trimming
  and keeps the others in order; \<open>a, b ,, c\<close> gives \<open>a\<close>, \<open>b\<close>, \<open>c\<close>. Every keyword
  stored by the loop of lines 134 to 141 is non-empty and trimmed, each category of the
  seed keywords gets the keywords parsed from its own text area, in the order of the seed
  keywords, and Save stores exactly that dictionary in \<open>feedback\<close>.
\<close>

theorem edit_keywords_parsing:
  "parse_keywords inp = filter (\<lambda>w. w \<noteq> []) (map strip (split comma inp)) \<and>
   join [comma] (split comma inp) = inp \<and>
   (\<forall>t\<in>set (split comma inp). comma \<notin> set t) \<and>
   (\<exists>a b. k = a @ strip k @ b \<and> list_all isspace a \<and> list_all isspace b) \<and>
   (strip k \<noteq> [] \<longrightarrow> \<not> isspace (hd (strip k)) \<and> \<not> isspace (last (strip k))) \<and>
   (\<forall>w\<in>set (parse_keywords inp). w \<noteq> [] \<and> \<not> isspace (hd w) \<and> \<not> isspace (last w)) \<and>
   parse_keywords (ascii ''a, b ,, c'') = [ascii ''a'', ascii ''b'', ascii ''c''] \<and>
   (distinct (map fst d) \<longrightarrow>
      map fst (edit_loop env d []) = map fst d \<and>
      (\<forall>(field, kws)\<in>set d. map_of (edit_loop env d []) field =
         Some (parse_keywords (edit_area env field (join (ascii '', '') kws))))) \<and>
   (\<forall>(field, ws)\<in>set (edit_loop env d []).
      \<forall>w\<in>set ws. w \<noteq> [] \<and> \<not> isspace (hd w) \<and> \<not> isspace (last w)) \<and>
   (edit_button env \<longrightarrow> save_button env \<longrightarrow> seed_keywords s = Some (Val d) \<longrightarrow>
      feedback (sess (edit_action env s)) = Some (Val (Edit (edit_loop env d []))))"
proof (intro conjI)
  show "parse_keywords inp = filter (\<lambda>w. w \<noteq> []) (map strip (split comma inp))"
    by (rule parse_keywords_filter_map)
  show "join [comma] (split comma inp) = inp" by (rule join_split)
  show "\<forall>t\<in>set (split comma inp). comma \<notin> set t" by (simp add: split_no_sep)
  show "\<exists>a b. k = a @ strip k @ b \<and> list_all isspace a \<and> list_all isspace b"
    by (rule strip_decomp)
  show "strip k \<noteq> [] \<longrightarrow> \<not> isspace (hd (strip k)) \<and> \<not> isspace (last (strip k))"
    by (simp add: strip_ends)
  show "\<forall>w\<in>set (parse_keywords inp). w \<noteq> [] \<and> \<not> isspace (hd w) \<and> \<not> isspace (last w)"
    using parse_keywords_trimmed by blast
  show "parse_keywords (ascii ''a, b ,, c'') = [ascii ''a'', ascii ''b'', ascii ''c'']"
    by (rule parse_keywords_example)
  show "distinct (map fst d) \<longrightarrow>
      map fst (edit_loop env d []) = map fst d \<and>
      (\<forall>(field, kws)\<in>set d. map_of (edit_loop env d []) field =
         Some (parse_keywords (edit_area env field (join (ascii '', '') kws))))"
    using edit_loop_lookup [of d _ _ env "[]"] edit_loop_order [of d "[]" env] by auto
  show "\<forall>(field, ws)\<in>set (edit_loop env d []).
      \<forall>w\<in>set ws. w \<noteq> [] \<and> \<not> isspace (hd w) \<and> \<not> isspace (last w)"
  proof (intro ballI, clarify)
    fix field ws w
    assume a: "(field, ws) \<in> set (edit_loop env d [])" "w \<in> set ws"
    then obtain i where "ws = parse_keywords i" using edit_loop_values [OF a(1)] by auto
    with a(2) show "w \<noteq> [] \<and> \<not> isspace (hd w) \<and> \<not> isspace (last w)"
      using parse_keywords_trimmed by blast
  qed
  show "edit_button env \<longrightarrow> save_button env \<longrightarrow> seed_keywords s = Some (Val d) \<longrightarrow>
      feedback (sess (edit_action env s)) = Some (Val (Edit (edit_loop env d [])))"
    by (simp add: edit_action_saves)
qed

theorem edit_keywords_parsing_witness:
  "strip (ascii '' b '') = ascii ''b'' \<and>
   \<not> isspace (hd (strip (ascii '' b ''))) \<and> \<not> isspace (last (strip (ascii '' b ''))) \<and>
   split comma (ascii ''a, b ,, c'') = [ascii ''a'', ascii '' b '', [], ascii '' c''] \<and>
   parse_keywords (ascii ''a, b ,, c'') = [ascii ''a'', ascii ''b'', ascii ''c''] \<and>
   distinct (map fst example_seed_keywords) \<and>
   map fst (edit_loop edit_env example_seed_keywords []) = map fst example_seed_keywords \<and>
   edit_button edit_env \<and> save_button edit_env \<and>
   seed_keywords analysed_session = Some (Val example_seed_keywords) \<and>
   feedback (sess (edit_action edit_env analysed_session)) =
     Some (Val (Edit [(ascii ''problem_purpose'', [ascii ''a'', ascii ''b'', ascii ''c'']),
       (ascii ''object_system'', [ascii ''filter'', ascii ''membrane'']),
       (ascii ''environment_field'', [ascii ''home'', ascii ''residential''])]))"
proof -
  note t = edit_keywords_parsing [of "ascii ''a, b ,, c''" "ascii '' b ''"
      example_seed_keywords edit_env analysed_session]
  note c5 = t [THEN conjunct2, THEN conjunct2, THEN conjunct2, THEN conjunct2, THEN conjunct1]
  note c7 = t [THEN conjunct2, THEN conjunct2, THEN conjunct2, THEN conjunct2, THEN conjunct2,
      THEN conjunct2, THEN conjunct1]
  note c8 = t [THEN conjunct2, THEN conjunct2, THEN conjunct2, THEN conjunct2, THEN conjunct2,
      THEN conjunct2, THEN conjunct2, THEN conjunct1]
  note c10 = t [THEN conjunct2, THEN conjunct2, THEN conjunct2, THEN conjunct2, THEN conjunct2,
      THEN conjunct2, THEN conjunct2, THEN conjunct2, THEN conjunct2]
  have s1: "strip (ascii '' b '') = ascii ''b''"
    by (simp add: ascii_def strip_def isspace_def)
  have s2: "split comma (ascii ''a, b ,, c'') = [ascii ''a'', ascii '' b '', [], ascii '' c'']"
    by (simp add: ascii_def comma_def)
  have d: "distinct (map fst example_seed_keywords)"
    by (simp add: example_seed_keywords_def ascii_def)
  have b1: "edit_button edit_env" and b2: "save_button edit_env"
    by (simp_all add: edit_env_def idle_env_def)
  have k: "seed_keywords analysed_session = Some (Val example_seed_keywords)"
    by (simp add: analysed_session_def example_results_def)
  have ne: "strip (ascii '' b '') \<noteq> []" unfolding s1 by (simp add: ascii_def)
  have e1: "\<not> isspace (hd (strip (ascii '' b '')))"
    and e2: "\<not> isspace (last (strip (ascii '' b '')))"
    using mp [OF c5 ne] by (rule conjunct1, rule conjunct2)
  have o: "map fst (edit_loop edit_env example_seed_keywords []) = map fst example_seed_keywords"
    using mp [OF c8 d] by (rule conjunct1)
  have f: "feedback (sess (edit_action edit_env analysed_session)) =
     Some (Val (Edit [(ascii ''problem_purpose'', [ascii ''a'', ascii ''b'', ascii ''c'']),
       (ascii ''object_system'', [ascii ''filter'', ascii ''membrane'']),
       (ascii ''environment_field'', [ascii ''home'', ascii ''residential''])]))"
    using c10 [rule_format, OF b1 b2 k] by (simp only: edit_env_loop)
  show ?thesis
    by (intro conjI) (rule s1 e1 e2 s2 c7 d o b1 b2 k f)+
qed

text \<open>
  C3, as the code has it. \<open>app.py\<close> has no handler around line 91. If \<open>extract_keywords\<close>
  raises in a run where Start Analysis is clicked with a non-empty text, the exception is not
  caught: it ends the run at the call, so the page has rendered the input section and the
  spinner and nothing after them (no message of its own, no feedback section, no results), and
  the session is the one \<open>init_session_state\<close> left, since no assignment of lines 92 to 94
  was made. For an initialised session, which every session is after its first run, the
  session is unchanged altogether.
\<close>

theorem extraction_failure_aborts:
  assumes "start_button env" and "input_text env \<noteq> []"
    and "extract_keywords env (input_text env) = Inl e"
    and "raised (init_session_state env s) = None"
  shows "raised (main env s) = Some e \<and>
         trace (main env s) =
           [Page_config, Title ''Patent Search Assistant'', Markdown_rule,
            Expander ''Enter Patent Idea'', Text_area ''Describe your patent idea'',
            Button ''Start Analysis'', Spinner ''Analyzing your patent idea...'',
            Call_extract_keywords (input_text env)] \<and>
         sess (main env s) = sess (init_session_state env s) \<and>
         (initialised s \<longrightarrow> sess (main env s) = s) \<and>
         (extractor s \<noteq> None \<longrightarrow>
            raised (start_analysis env s) = Some e \<and> sess (start_analysis env s) = s)"
proof -
  note m = main_extraction_failure [OF assms]
  have i: "initialised s \<longrightarrow> sess (main env s) = s"
    using m(3) by (simp add: init_session_state_initialised)
  have b: "extractor s \<noteq> None \<longrightarrow>
      raised (start_analysis env s) = Some e \<and> sess (start_analysis env s) = s"
    using start_analysis_failure [OF assms(1,2,3)] by simp
  show ?thesis by (intro conjI) (rule m i b)+
qed

theorem extraction_failure_aborts_witness:
  "start_button failing_env \<and> input_text failing_env \<noteq> [] \<and>
   extract_keywords failing_env (input_text failing_env) =
     Inl (CollaboratorError (ascii ''timeout'')) \<and>
   raised (init_session_state failing_env approved_session) = None \<and>
   initialised approved_session \<and>
   raised (main failing_env approved_session) = Some (CollaboratorError (ascii ''timeout'')) \<and>
   sess (main failing_env approved_session) = approved_session"
proof -
  note f = failing_env_facts
  note t = extraction_failure_aborts [OF f(1) f(3) f(4) f(5)]
  note t4 = t [THEN conjunct2, THEN conjunct2, THEN conjunct2, THEN conjunct1, rule_format, OF f(6)]
  show ?thesis
    by (intro conjI) (rule f(1) f(3) f(4) f(5) f(6) t [THEN conjunct1] t4)+
qed

text \<open>
  The claim C3 as stated fails in its first half: with an extractor that raises, the run does
  not report an error, it is ended by the uncaught exception and its last event is the call.
\<close>

theorem extraction_failure_counterexample:
  "extract_keywords failing_env (input_text failing_env) =
     Inl (CollaboratorError (ascii ''timeout'')) \<and>
   raised (main failing_env approved_session) = Some (CollaboratorError (ascii ''timeout'')) \<and>
   trace (main failing_env approved_session) =
     [Page_config, Title ''Patent Search Assistant'', Markdown_rule,
      Expander ''Enter Patent Idea'', Text_area ''Describe your patent idea'',
      Button ''Start Analysis'', Spinner ''Analyzing your patent idea...'',
      Call_extract_keywords (ascii ''idea'')]"
proof -
  note f = failing_env_facts
  note m = main_extraction_failure [OF f(1) f(3) f(4) f(5)]
  show ?thesis
    by (intro conjI) (rule f(4) m(1) m(2) [unfolded f(2)])+
qed




end
